theory Spec2Isabelle
  imports Main "HOL-Library.Word"
begin

unbundle bit_operations_syntax

section \<open>The allocator of mm.c on a 64-bit machine\<close>

text \<open>
  The source defines a word as \<open>sizeof(void *)\<close> and uses \<open>uintptr_t\<close> and \<open>size_t\<close>
  for every size and address.  This development fixes the 64-bit instance (the one with
  16-byte alignment): a word is 8 bytes and sizes, addresses and stored words are
  \<open>64 word\<close>, whose arithmetic wraps around as the unsigned C arithmetic does.
\<close>

type_synonym addr = "64 word"

subsection \<open>Constants and macros\<close>

definition WSIZE :: "64 word" where
  "WSIZE = 8"

definition DSIZE :: "64 word" where
  "DSIZE = 2 * WSIZE"

definition CHUNKSIZE :: "64 word" where
  "CHUNKSIZE = push_bit 12 1"

definition ALIGN :: "64 word" where
  "ALIGN = 16"

definition NUM :: nat where
  "NUM = 16"

definition NULL :: addr where
  "NULL = 0"

definition MAX_w :: "64 word \<Rightarrow> 64 word \<Rightarrow> 64 word" where
  "MAX_w x y = (if x > y then x else y)"

definition PACK :: "64 word \<Rightarrow> 64 word \<Rightarrow> 64 word" where
  "PACK sz alloc = sz OR alloc"

text \<open>The two decoders of a boundary tag, applied to the word that \<open>GET\<close> has read.\<close>

definition SIZE_BITS :: "64 word \<Rightarrow> 64 word" where
  "SIZE_BITS w = w AND NOT (DSIZE - 1)"

definition ALLOC_BIT :: "64 word \<Rightarrow> 64 word" where
  "ALLOC_BIT w = w AND 1"

definition HDRP :: "addr \<Rightarrow> addr" where
  "HDRP bp = bp - WSIZE"

subsection \<open>Size classes\<close>

definition find_explicit :: "64 word \<Rightarrow> nat" where
  "find_explicit sz =
     (if sz \<le> 64 then 0
      else if sz \<le> 128 then 1
      else if sz \<le> 256 then 2
      else if sz \<le> 500 then 3
      else if sz \<le> 750 then 4
      else if sz \<le> 1000 then 5
      else if sz \<le> 2000 then 6
      else if sz \<le> 3000 then 7
      else if sz \<le> 4000 then 8
      else if sz \<le> 5000 then 9
      else if sz \<le> 6000 then 10
      else if sz \<le> 7000 then 11
      else if sz \<le> 8000 then 12
      else if sz \<le> 9000 then 13
      else 14)"

subsection \<open>Adjusted block sizes\<close>

text \<open>The adjusted size as \<open>mm_malloc\<close> computes it (lines 158 to 161).\<close>

definition malloc_asize :: "64 word \<Rightarrow> 64 word" where
  "malloc_asize sz =
     (if sz \<le> DSIZE then 2 * DSIZE
      else (ALIGN * ((sz + (ALIGN - 1)) div ALIGN)) + DSIZE)"

text \<open>The adjusted size as \<open>mm_realloc\<close> computes it (lines 221 to 224).\<close>

definition realloc_asize :: "64 word \<Rightarrow> 64 word" where
  "realloc_asize sz =
     (if sz \<le> DSIZE then 2 * DSIZE
      else DSIZE * ((sz + DSIZE + (DSIZE - 1)) div DSIZE))"

text \<open>
  The rounding rule in the words of the specification, over unbounded integers:
  \<open>max(2*doubleword, roundUp(size, alignment) + doubleword)\<close>.
\<close>

definition roundUp :: "int \<Rightarrow> int \<Rightarrow> int" where
  "roundUp n a = a * ((n + a - 1) div a)"

definition spec_asize :: "int \<Rightarrow> int" where
  "spec_asize n = max (2 * uint DSIZE) (roundUp n (uint ALIGN) + uint DSIZE)"


subsection \<open>Memory and the heap-growth primitive\<close>

text \<open>
  Memory is read and written one word at a time, through \<open>GET\<close> and \<open>PUT\<close>.  The model
  keeps one stored word per address.  An access is defined only at a word-aligned address
  inside the region that the growth primitive draws from, from \<open>mem_start_brk\<close> up to
  \<open>mem_max_addr\<close>; any other access (through the null pointer, say) is the error
  \<open>BadAccess\<close>.  A free-list scan that never comes back to the list head is the error
  \<open>NoReturn\<close>, and a \<open>memcpy\<close> between overlapping ranges, which C leaves undefined,
  is the error \<open>Overlap\<close>.
\<close>

datatype error = BadAccess | NoReturn | Overlap

record heap_state =
  mem :: "addr \<Rightarrow> 64 word"
  mem_start_brk :: addr
  mem_brk :: addr
  mem_max_addr :: addr
  heap_listp :: addr
  free_lists :: addr

definition then_do :: "error + 'a \<Rightarrow> ('a \<Rightarrow> error + 'b) \<Rightarrow> error + 'b" where
  "then_do m f = (case m of Inl e \<Rightarrow> Inl e | Inr x \<Rightarrow> f x)"

definition valid :: "heap_state \<Rightarrow> addr \<Rightarrow> bool" where
  "valid s p \<longleftrightarrow>
     p AND (WSIZE - 1) = 0 \<and> mem_start_brk s \<le> p \<and>
     unat p + unat WSIZE \<le> unat (mem_max_addr s)"

definition GET :: "heap_state \<Rightarrow> addr \<Rightarrow> error + 64 word" where
  "GET s p = (if valid s p then Inr (mem s p) else Inl BadAccess)"

definition PUT :: "heap_state \<Rightarrow> addr \<Rightarrow> 64 word \<Rightarrow> error + heap_state" where
  "PUT s p val = (if valid s p then Inr (s\<lparr>mem := (mem s)(p := val)\<rparr>) else Inl BadAccess)"

text \<open>
  Modelled from the spec: the growth primitive \<open>mem_sbrk\<close> of memlib, which is not part
  of the source: "request N more bytes, get back a pointer or failure".  On success it
  returns the old break and moves the break up; on failure (\<open>None\<close>, the \<open>(void *)-1\<close>
  of the source) it changes nothing.
\<close>

definition mem_sbrk :: "heap_state \<Rightarrow> 64 word \<Rightarrow> (addr \<times> heap_state) option" where
  "mem_sbrk s incr =
     (if unat (mem_brk s) + unat incr \<le> unat (mem_max_addr s)
      then Some (mem_brk s, s\<lparr>mem_brk := mem_brk s + incr\<rparr>)
      else None)"

subsection \<open>Boundary tags and block addresses\<close>

definition GET_SIZE :: "heap_state \<Rightarrow> addr \<Rightarrow> error + 64 word" where
  "GET_SIZE s p = then_do (GET s p) (\<lambda>w. Inr (SIZE_BITS w))"

definition GET_ALLOC :: "heap_state \<Rightarrow> addr \<Rightarrow> error + 64 word" where
  "GET_ALLOC s p = then_do (GET s p) (\<lambda>w. Inr (ALLOC_BIT w))"

definition FTRP :: "heap_state \<Rightarrow> addr \<Rightarrow> error + addr" where
  "FTRP s bp = then_do (GET_SIZE s (HDRP bp)) (\<lambda>sz. Inr (bp + sz - DSIZE))"

definition NEXT_BLKP :: "heap_state \<Rightarrow> addr \<Rightarrow> error + addr" where
  "NEXT_BLKP s bp = then_do (GET_SIZE s (bp - WSIZE)) (\<lambda>sz. Inr (bp + sz))"

definition PREV_BLKP :: "heap_state \<Rightarrow> addr \<Rightarrow> error + addr" where
  "PREV_BLKP s bp = then_do (GET_SIZE s (bp - DSIZE)) (\<lambda>sz. Inr (bp - sz))"

subsection \<open>Free-list nodes\<close>

text \<open>
  A \<open>struct Node\<close> is two pointers: \<open>next\<close> at offset 0 and \<open>prev\<close> one word further.
  The list heads are an array of \<open>NUM\<close> nodes at \<open>free_lists\<close>.
\<close>

definition Node_next :: "heap_state \<Rightarrow> addr \<Rightarrow> error + addr" where
  "Node_next s n = GET s n"

definition Node_prev :: "heap_state \<Rightarrow> addr \<Rightarrow> error + addr" where
  "Node_prev s n = GET s (n + WSIZE)"

definition set_next :: "heap_state \<Rightarrow> addr \<Rightarrow> addr \<Rightarrow> error + heap_state" where
  "set_next s n v = PUT s n v"

definition set_prev :: "heap_state \<Rightarrow> addr \<Rightarrow> addr \<Rightarrow> error + heap_state" where
  "set_prev s n v = PUT s (n + WSIZE) v"

definition list_head :: "heap_state \<Rightarrow> nat \<Rightarrow> addr" where
  "list_head s i = free_lists s + DSIZE * of_nat i"

definition deleteBlock :: "heap_state \<Rightarrow> addr \<Rightarrow> error + heap_state" where
  "deleteBlock s bp =
     then_do (Node_prev s bp) (\<lambda>p1.
     then_do (Node_next s bp) (\<lambda>n1.
     then_do (set_next s p1 n1) (\<lambda>s1.
     then_do (Node_next s1 bp) (\<lambda>n2.
     then_do (Node_prev s1 bp) (\<lambda>p2.
     set_prev s1 n2 p2)))))"

definition insertBlock :: "heap_state \<Rightarrow> addr \<Rightarrow> error + heap_state" where
  "insertBlock s bp =
     then_do (GET_SIZE s (HDRP bp)) (\<lambda>sz.
     let explicit = find_explicit sz; head = list_head s explicit in
     then_do (Node_next s head) (\<lambda>temp.
     then_do (set_next s head bp) (\<lambda>s1.
     then_do (set_prev s1 temp bp) (\<lambda>s2.
     then_do (set_prev s2 bp head) (\<lambda>s3.
     set_next s3 bp temp)))))"


subsection \<open>Coalescing and heap extension\<close>

definition coalesce :: "heap_state \<Rightarrow> addr \<Rightarrow> error + (addr \<times> heap_state)" where
  "coalesce s bp =
     then_do (GET_SIZE s (HDRP bp)) (\<lambda>sz.
     then_do (PREV_BLKP s bp) (\<lambda>pb.
     then_do (FTRP s pb) (\<lambda>pf.
     then_do (GET_ALLOC s pf) (\<lambda>pa.
     then_do (NEXT_BLKP s bp) (\<lambda>nb.
     then_do (GET_ALLOC s (HDRP nb)) (\<lambda>na.
     let prev_alloc = (pa \<noteq> 0); next_alloc = (na \<noteq> 0) in
     if prev_alloc \<and> next_alloc then
       then_do (insertBlock s bp) (\<lambda>s1. Inr (bp, s1))
     else if prev_alloc \<and> \<not> next_alloc then
       then_do (NEXT_BLKP s bp) (\<lambda>nb1.
       then_do (deleteBlock s nb1) (\<lambda>s1.
       then_do (NEXT_BLKP s1 bp) (\<lambda>nb2.
       then_do (GET_SIZE s1 (HDRP nb2)) (\<lambda>nsz.
       let sz1 = sz + nsz in
       then_do (PUT s1 (HDRP bp) (PACK sz1 0)) (\<lambda>s2.
       then_do (FTRP s2 bp) (\<lambda>f.
       then_do (PUT s2 f (PACK sz1 0)) (\<lambda>s3.
       then_do (insertBlock s3 bp) (\<lambda>s4. Inr (bp, s4)))))))))
     else if \<not> prev_alloc \<and> next_alloc then
       then_do (PREV_BLKP s bp) (\<lambda>pb1.
       then_do (GET_SIZE s (HDRP pb1)) (\<lambda>psz.
       let sz1 = sz + psz in
       then_do (PREV_BLKP s bp) (\<lambda>pb2.
       then_do (deleteBlock s pb2) (\<lambda>s1.
       then_do (FTRP s1 bp) (\<lambda>f.
       then_do (PUT s1 f (PACK sz1 0)) (\<lambda>s2.
       then_do (PREV_BLKP s2 bp) (\<lambda>pb3.
       then_do (PUT s2 (HDRP pb3) (PACK sz1 0)) (\<lambda>s3.
       then_do (PREV_BLKP s3 bp) (\<lambda>bp1.
       then_do (insertBlock s3 bp1) (\<lambda>s4. Inr (bp1, s4)))))))))))
     else
       then_do (NEXT_BLKP s bp) (\<lambda>nb1.
       then_do (deleteBlock s nb1) (\<lambda>s1.
       then_do (PREV_BLKP s1 bp) (\<lambda>pb1.
       then_do (deleteBlock s1 pb1) (\<lambda>s2.
       then_do (PREV_BLKP s2 bp) (\<lambda>pb2.
       then_do (GET_SIZE s2 (HDRP pb2)) (\<lambda>psz.
       then_do (NEXT_BLKP s2 bp) (\<lambda>nb2.
       then_do (FTRP s2 nb2) (\<lambda>nf.
       then_do (GET_SIZE s2 nf) (\<lambda>nsz.
       let sz1 = sz + (psz + nsz) in
       then_do (PREV_BLKP s2 bp) (\<lambda>pb3.
       then_do (PUT s2 (HDRP pb3) (PACK sz1 0)) (\<lambda>s3.
       then_do (NEXT_BLKP s3 bp) (\<lambda>nb3.
       then_do (FTRP s3 nb3) (\<lambda>nf3.
       then_do (PUT s3 nf3 (PACK sz1 0)) (\<lambda>s4.
       then_do (PREV_BLKP s4 bp) (\<lambda>bp1.
       then_do (insertBlock s4 bp1) (\<lambda>s5. Inr (bp1, s5)))))))))))))))))))))))"

text \<open>\<open>extend_heap\<close> returns \<open>NULL\<close> when the growth primitive fails.\<close>

definition extend_heap :: "heap_state \<Rightarrow> 64 word \<Rightarrow> error + (addr \<times> heap_state)" where
  "extend_heap s words =
     (let sz = (if words mod 2 \<noteq> 0 then (words + 1) * WSIZE else words * WSIZE) in
      case mem_sbrk s sz of
        None \<Rightarrow> Inr (NULL, s)
      | Some (bp, s0) \<Rightarrow>
          then_do (PUT s0 (HDRP bp) (PACK sz 0)) (\<lambda>s1.
          then_do (FTRP s1 bp) (\<lambda>f.
          then_do (PUT s1 f (PACK sz 0)) (\<lambda>s2.
          then_do (NEXT_BLKP s2 bp) (\<lambda>nb.
          then_do (PUT s2 (HDRP nb) (PACK 0 1)) (\<lambda>s3.
          coalesce s3 bp))))))"

subsection \<open>Fit search and placement\<close>

text \<open>
  The inner loop of \<open>find_fit\<close> walks one circular list from \<open>bp\<close> until it is back at
  the head \<open>temp\<close>.  Nothing in the code bounds the walk, so it is a partial function:
  \<open>None\<close> is a walk that never returns.  \<open>Some (Inr None)\<close> is a list without a fit.
\<close>

partial_function (option) scan_list ::
    "heap_state \<Rightarrow> addr \<Rightarrow> 64 word \<Rightarrow> addr \<Rightarrow> (error + addr option) option" where
  "scan_list s temp asize bp =
     (if bp = temp then Some (Inr None)
      else (case GET_SIZE s (HDRP bp) of
        Inl e \<Rightarrow> Some (Inl e)
      | Inr sz \<Rightarrow>
          (if asize \<le> sz then Some (Inr (Some bp))
           else (case Node_next s bp of
             Inl e \<Rightarrow> Some (Inl e)
           | Inr nx \<Rightarrow> scan_list s temp asize nx))))"

declare scan_list.simps [code]

function find_fit_from :: "heap_state \<Rightarrow> 64 word \<Rightarrow> nat \<Rightarrow> error + addr" where
  "find_fit_from s asize i =
     (if i < NUM then
        (let temp = list_head s i in
         then_do (Node_next s temp) (\<lambda>first.
         (case scan_list s temp asize first of
           None \<Rightarrow> Inl NoReturn
         | Some r \<Rightarrow>
             then_do r (\<lambda>found.
             (case found of
               Some bp \<Rightarrow> Inr bp
             | None \<Rightarrow> find_fit_from s asize (i + 1))))))
      else Inr NULL)"
  by pat_completeness auto
termination
  by (relation "measure (\<lambda>(s, asize, i). NUM - i)") auto

definition find_fit :: "heap_state \<Rightarrow> 64 word \<Rightarrow> error + addr" where
  "find_fit s asize = find_fit_from s asize (find_explicit asize)"

definition place :: "heap_state \<Rightarrow> addr \<Rightarrow> 64 word \<Rightarrow> error + heap_state" where
  "place s bp asize =
     then_do (GET_SIZE s (HDRP bp)) (\<lambda>csize.
     if (csize - asize) \<ge> (ALIGN + DSIZE) then
       then_do (PUT s (HDRP bp) (PACK asize 1)) (\<lambda>s1.
       then_do (FTRP s1 bp) (\<lambda>f.
       then_do (PUT s1 f (PACK asize 1)) (\<lambda>s2.
       then_do (deleteBlock s2 bp) (\<lambda>s3.
       then_do (NEXT_BLKP s3 bp) (\<lambda>bp1.
       then_do (PUT s3 (HDRP bp1) (PACK (csize - asize) 0)) (\<lambda>s4.
       then_do (FTRP s4 bp1) (\<lambda>f1.
       then_do (PUT s4 f1 (PACK (csize - asize) 0)) (\<lambda>s5.
       insertBlock s5 bp1))))))))
     else
       then_do (PUT s (HDRP bp) (PACK csize 1)) (\<lambda>s1.
       then_do (FTRP s1 bp) (\<lambda>f.
       then_do (PUT s1 f (PACK csize 1)) (\<lambda>s2.
       deleteBlock s2 bp))))"


subsection \<open>The public operations\<close>

function init_lists :: "heap_state \<Rightarrow> nat \<Rightarrow> error + heap_state" where
  "init_lists s i =
     (if i < NUM then
        (let cur = list_head s i in
         then_do (set_next s cur cur) (\<lambda>s1.
         then_do (set_prev s1 cur cur) (\<lambda>s2.
         init_lists s2 (i + 1))))
      else Inr s)"
  by pat_completeness auto
termination
  by (relation "measure (\<lambda>(s, i). NUM - i)") auto

text \<open>\<open>mm_init\<close> returns 0 on success and -1 when the growth primitive fails.\<close>

definition mm_init :: "heap_state \<Rightarrow> error + (int \<times> heap_state)" where
  "mm_init s =
     (case mem_sbrk s (of_nat NUM * DSIZE) of
        None \<Rightarrow> Inr (- 1, s)
      | Some (temp, sa) \<Rightarrow>
          then_do (init_lists (sa\<lparr>free_lists := temp\<rparr>) 0) (\<lambda>sb.
          (case mem_sbrk sb (4 * WSIZE) of
             None \<Rightarrow> Inr (- 1, sb\<lparr>heap_listp := - 1\<rparr>)
           | Some (hp, sc) \<Rightarrow>
               (let s0 = sc\<lparr>heap_listp := hp\<rparr> in
                then_do (PUT s0 (heap_listp s0) 0) (\<lambda>s1.
                then_do (PUT s1 (heap_listp s1 + (1 * WSIZE)) (PACK DSIZE 1)) (\<lambda>s2.
                then_do (PUT s2 (heap_listp s2 + (2 * WSIZE)) (PACK DSIZE 1)) (\<lambda>s3.
                then_do (PUT s3 (heap_listp s3 + (3 * WSIZE)) (PACK 0 1)) (\<lambda>s4.
                (let s5 = s4\<lparr>heap_listp := heap_listp s4 + (2 * WSIZE)\<rparr> in
                 then_do (extend_heap s5 (CHUNKSIZE div WSIZE)) (\<lambda>(bp, s6).
                 if bp = NULL then Inr (- 1, s6) else Inr (0, s6)))))))))))"

definition mm_malloc :: "heap_state \<Rightarrow> 64 word \<Rightarrow> error + (addr \<times> heap_state)" where
  "mm_malloc s sz =
     (if sz = 0 then Inr (NULL, s)
      else
        (let asize = malloc_asize sz in
         then_do (find_fit s asize) (\<lambda>bp.
         if bp \<noteq> NULL then
           then_do (place s bp asize) (\<lambda>s1. Inr (bp, s1))
         else
           (let extendsize = asize + (2 * WSIZE) in
            then_do (extend_heap s (extendsize div WSIZE)) (\<lambda>(bp1, s1).
            if bp1 = NULL then Inr (NULL, s1)
            else then_do (place s1 bp1 asize) (\<lambda>s2. Inr (bp1, s2)))))))"

definition mm_free :: "heap_state \<Rightarrow> addr \<Rightarrow> error + heap_state" where
  "mm_free s bp =
     (if bp = NULL then Inr s
      else
        then_do (GET_SIZE s (HDRP bp)) (\<lambda>sz.
        then_do (PUT s (HDRP bp) (PACK sz 0)) (\<lambda>s1.
        then_do (FTRP s1 bp) (\<lambda>f.
        then_do (PUT s1 f (PACK sz 0)) (\<lambda>s2.
        then_do (coalesce s2 bp) (\<lambda>(bp1, s3). Inr s3))))))"

text \<open>
  \<open>memcpy\<close>, as a forward copy of whole words between ranges that do not overlap.  Its
  one caller passes a length read through \<open>GET_SIZE\<close>, a multiple of the doubleword,
  and word-aligned pointers.
\<close>

fun copy_words :: "heap_state \<Rightarrow> addr \<Rightarrow> addr \<Rightarrow> nat \<Rightarrow> error + heap_state" where
  "copy_words s dst src 0 = Inr s"
| "copy_words s dst src (Suc k) =
     then_do (GET s src) (\<lambda>w.
     then_do (PUT s dst w) (\<lambda>s1.
     copy_words s1 (dst + WSIZE) (src + WSIZE) k))"

definition memcpy :: "heap_state \<Rightarrow> addr \<Rightarrow> addr \<Rightarrow> 64 word \<Rightarrow> error + heap_state" where
  "memcpy s dst src n =
     (if unat dst + unat n \<le> unat src \<or> unat src + unat n \<le> unat dst
      then copy_words s dst src (unat (n div WSIZE))
      else Inl Overlap)"

definition mm_realloc :: "heap_state \<Rightarrow> addr \<Rightarrow> 64 word \<Rightarrow> error + (addr \<times> heap_state)" where
  "mm_realloc s ptr sz =
     then_do (GET_SIZE s (HDRP ptr)) (\<lambda>oldsize.
     (let asize = realloc_asize sz in
      if sz = 0 then
        then_do (mm_free s ptr) (\<lambda>s1. Inr (NULL, s1))
      else if ptr = NULL then mm_malloc s sz
      else if asize \<le> oldsize then Inr (ptr, s)
      else
        then_do (NEXT_BLKP s ptr) (\<lambda>nb.
        then_do (GET_SIZE s nb) (\<lambda>next_size.
        then_do (NEXT_BLKP s ptr) (\<lambda>nb1.
        then_do (GET_ALLOC s nb1) (\<lambda>na.
        if na = 0 \<and> (oldsize + next_size) \<le> asize then
          then_do (NEXT_BLKP s ptr) (\<lambda>next.
          then_do (deleteBlock s next) (\<lambda>s1.
          then_do (PUT s1 (HDRP ptr) (PACK (oldsize + next_size) 1)) (\<lambda>s2.
          then_do (FTRP s2 ptr) (\<lambda>f.
          then_do (PUT s2 f (PACK (oldsize + next_size) 1)) (\<lambda>s3.
          Inr (ptr, s3))))))
        else
          then_do (mm_malloc s (MAX_w oldsize asize * 10)) (\<lambda>(newptr, s1).
          if newptr = NULL then Inr (NULL, s1)
          else
            then_do (memcpy s1 newptr ptr oldsize) (\<lambda>s2.
            then_do (mm_free s2 ptr) (\<lambda>s3.
            Inr (newptr, s3))))))))))"

subsection \<open>The size-class cutoffs and an example machine\<close>

text \<open>The upper bounds of the size classes, in the order \<open>find_explicit\<close> tests them.\<close>

definition cutoffs :: "64 word list" where
  "cutoffs = [64, 128, 256, 500, 750, 1000, 2000, 3000, 4000, 5000, 6000, 7000, 8000, 9000]"

text \<open>
  A machine before \<open>mm_init\<close>: zeroed memory, a growth region of 8 KB starting at
  address \<open>0x10000\<close>, nothing handed out yet.
\<close>

definition fresh_memory :: heap_state where
  "fresh_memory =
     \<lparr>mem = (\<lambda>_. 0), mem_start_brk = 0x10000, mem_brk = 0x10000,
      mem_max_addr = 0x12000, heap_listp = 0, free_lists = 0\<rparr>"

text \<open>The same machine with the 20 MB growth region of the usual memlib.\<close>

definition large_memory :: heap_state where
  "large_memory = fresh_memory\<lparr>mem_max_addr := 0x1410000\<rparr>"

subsection \<open>Two recorded runs\<close>

text \<open>
  The states of two runs of the allocator, written out word by word.  The first run is on
  \<open>fresh_memory\<close>, the second on \<open>large_memory\<close>.  That each state is the one the
  operations produce is proved below, step by step.
\<close>

text \<open>The state after \<open>mm_init\<close> on \<open>fresh_memory\<close>: one free block of 4096 bytes at 65824.\<close>

definition hA0 :: heap_state where
  "hA0 =
     \<lparr>mem = (\<lambda>_. 0) (65536 := 65536, 65544 := 65536, 65552 := 65552, 65560 :=
       65552, 65568 := 65568, 65576 := 65568, 65584 := 65584, 65592 := 65584, 65600 :=
       65600, 65608 := 65600, 65616 := 65616, 65624 := 65616, 65632 := 65632, 65640 :=
       65632, 65648 := 65648, 65656 := 65648, 65664 := 65664, 65672 := 65664, 65696 :=
       65696, 65704 := 65696, 65712 := 65712, 65720 := 65712, 65728 := 65728, 65736 :=
       65728, 65744 := 65744, 65752 := 65744, 65760 := 65760, 65768 := 65760, 65776 :=
       65776, 65784 := 65776, 65792 := 0, 65800 := 17, 65808 := 17, 65816 := 4096, 69904 :=
       4096, 69912 := 1, 65680 := 65824, 65688 := 65824, 65832 := 65680, 65824 := 65680),
       mem_start_brk = 65536, mem_brk = 69920, mem_max_addr = 73728, heap_listp = 65808,
       free_lists = 65536\<rparr>"

text \<open>The state after \<open>mm_malloc 16\<close> in \<open>hA0\<close>, which returns 65824: a block of 32 bytes, followed by a free block of 4064 bytes.\<close>

definition hA1 :: heap_state where
  "hA1 =
     \<lparr>mem = (\<lambda>_. 0) (65536 := 65536, 65544 := 65536, 65552 := 65552, 65560 :=
       65552, 65568 := 65568, 65576 := 65568, 65584 := 65584, 65592 := 65584, 65600 :=
       65600, 65608 := 65600, 65616 := 65616, 65624 := 65616, 65632 := 65632, 65640 :=
       65632, 65648 := 65648, 65656 := 65648, 65664 := 65664, 65672 := 65664, 65696 :=
       65696, 65704 := 65696, 65712 := 65712, 65720 := 65712, 65728 := 65728, 65736 :=
       65728, 65744 := 65744, 65752 := 65744, 65760 := 65760, 65768 := 65760, 65776 :=
       65776, 65784 := 65776, 65792 := 0, 65800 := 17, 65808 := 17, 69912 := 1, 65832 :=
       65680, 65824 := 65680, 65816 := 33, 65840 := 33, 65848 := 4064, 69904 := 4064, 65680
       := 65856, 65688 := 65856, 65864 := 65680, 65856 := 65680), mem_start_brk = 65536,
       mem_brk = 69920, mem_max_addr = 73728, heap_listp = 65808, free_lists = 65536\<rparr>"

text \<open>The state after \<open>mm_realloc 65824 24\<close> in \<open>hA1\<close>, which returns 65856.\<close>

definition hA2 :: heap_state where
  "hA2 =
     \<lparr>mem = (\<lambda>_. 0) (65552 := 65552, 65560 := 65552, 65568 := 65568, 65576 :=
       65568, 65584 := 65584, 65592 := 65584, 65600 := 65600, 65608 := 65600, 65616 :=
       65616, 65624 := 65616, 65632 := 65632, 65640 := 65632, 65648 := 65648, 65656 :=
       65648, 65696 := 65696, 65704 := 65696, 65712 := 65712, 65720 := 65712, 65728 :=
       65728, 65736 := 65728, 65744 := 65744, 65752 := 65744, 65760 := 65760, 65768 :=
       65760, 65776 := 65776, 65784 := 65776, 65792 := 0, 65800 := 17, 65808 := 17, 69912 :=
       1, 65848 := 497, 66336 := 497, 65680 := 65680, 65688 := 65680, 66344 := 3568, 69904
       := 3568, 65664 := 66352, 65672 := 66352, 66360 := 65664, 66352 := 65664, 65856 :=
       65680, 65864 := 65680, 65872 := 33, 65880 := 497, 65816 := 32, 65840 := 32, 65536 :=
       65824, 65544 := 65824, 65832 := 65536, 65824 := 65536), mem_start_brk = 65536,
       mem_brk = 69920, mem_max_addr = 73728, heap_listp = 65808, free_lists = 65536\<rparr>"

text \<open>The state after \<open>mm_malloc 480\<close> in \<open>hA1\<close>, which returns 65856.\<close>

definition hA1m :: heap_state where
  "hA1m =
     \<lparr>mem = (\<lambda>_. 0) (65536 := 65536, 65544 := 65536, 65552 := 65552, 65560 :=
       65552, 65568 := 65568, 65576 := 65568, 65584 := 65584, 65592 := 65584, 65600 :=
       65600, 65608 := 65600, 65616 := 65616, 65624 := 65616, 65632 := 65632, 65640 :=
       65632, 65648 := 65648, 65656 := 65648, 65696 := 65696, 65704 := 65696, 65712 :=
       65712, 65720 := 65712, 65728 := 65728, 65736 := 65728, 65744 := 65744, 65752 :=
       65744, 65760 := 65760, 65768 := 65760, 65776 := 65776, 65784 := 65776, 65792 := 0,
       65800 := 17, 65808 := 17, 69912 := 1, 65832 := 65680, 65824 := 65680, 65816 := 33,
       65840 := 33, 65864 := 65680, 65856 := 65680, 65848 := 497, 66336 := 497, 65680 :=
       65680, 65688 := 65680, 66344 := 3568, 69904 := 3568, 65664 := 66352, 65672 := 66352,
       66360 := 65664, 66352 := 65664), mem_start_brk = 65536, mem_brk = 69920, mem_max_addr
       = 73728, heap_listp = 65808, free_lists = 65536\<rparr>"

text \<open>The state after \<open>mm_free 65824\<close> in \<open>hA1\<close>.\<close>

definition hA1f :: heap_state where
  "hA1f =
     \<lparr>mem = (\<lambda>_. 0) (65536 := 65536, 65544 := 65536, 65552 := 65552, 65560 :=
       65552, 65568 := 65568, 65576 := 65568, 65584 := 65584, 65592 := 65584, 65600 :=
       65600, 65608 := 65600, 65616 := 65616, 65624 := 65616, 65632 := 65632, 65640 :=
       65632, 65648 := 65648, 65656 := 65648, 65664 := 65664, 65672 := 65664, 65696 :=
       65696, 65704 := 65696, 65712 := 65712, 65720 := 65712, 65728 := 65728, 65736 :=
       65728, 65744 := 65744, 65752 := 65744, 65760 := 65760, 65768 := 65760, 65776 :=
       65776, 65784 := 65776, 65792 := 0, 65800 := 17, 65808 := 17, 69912 := 1, 65848 :=
       4064, 65864 := 65680, 65856 := 65680, 65840 := 32, 65816 := 4096, 69904 := 4096,
       65680 := 65824, 65688 := 65824, 65832 := 65680, 65824 := 65680), mem_start_brk =
       65536, mem_brk = 69920, mem_max_addr = 73728, heap_listp = 65808, free_lists =
       65536\<rparr>"

text \<open>The state after \<open>mm_init\<close> on \<open>large_memory\<close>.\<close>

definition hB0 :: heap_state where
  "hB0 =
     \<lparr>mem = (\<lambda>_. 0) (65536 := 65536, 65544 := 65536, 65552 := 65552, 65560 :=
       65552, 65568 := 65568, 65576 := 65568, 65584 := 65584, 65592 := 65584, 65600 :=
       65600, 65608 := 65600, 65616 := 65616, 65624 := 65616, 65632 := 65632, 65640 :=
       65632, 65648 := 65648, 65656 := 65648, 65664 := 65664, 65672 := 65664, 65696 :=
       65696, 65704 := 65696, 65712 := 65712, 65720 := 65712, 65728 := 65728, 65736 :=
       65728, 65744 := 65744, 65752 := 65744, 65760 := 65760, 65768 := 65760, 65776 :=
       65776, 65784 := 65776, 65792 := 0, 65800 := 17, 65808 := 17, 65816 := 4096, 69904 :=
       4096, 69912 := 1, 65680 := 65824, 65688 := 65824, 65832 := 65680, 65824 := 65680),
       mem_start_brk = 65536, mem_brk = 69920, mem_max_addr = 21037056, heap_listp = 65808,
       free_lists = 65536\<rparr>"

text \<open>The state after \<open>mm_malloc 16\<close>, which returns 65824.\<close>

definition hB1 :: heap_state where
  "hB1 =
     \<lparr>mem = (\<lambda>_. 0) (65536 := 65536, 65544 := 65536, 65552 := 65552, 65560 :=
       65552, 65568 := 65568, 65576 := 65568, 65584 := 65584, 65592 := 65584, 65600 :=
       65600, 65608 := 65600, 65616 := 65616, 65624 := 65616, 65632 := 65632, 65640 :=
       65632, 65648 := 65648, 65656 := 65648, 65664 := 65664, 65672 := 65664, 65696 :=
       65696, 65704 := 65696, 65712 := 65712, 65720 := 65712, 65728 := 65728, 65736 :=
       65728, 65744 := 65744, 65752 := 65744, 65760 := 65760, 65768 := 65760, 65776 :=
       65776, 65784 := 65776, 65792 := 0, 65800 := 17, 65808 := 17, 69912 := 1, 65832 :=
       65680, 65824 := 65680, 65816 := 33, 65840 := 33, 65848 := 4064, 69904 := 4064, 65680
       := 65856, 65688 := 65856, 65864 := 65680, 65856 := 65680), mem_start_brk = 65536,
       mem_brk = 69920, mem_max_addr = 21037056, heap_listp = 65808, free_lists =
       65536\<rparr>"

text \<open>The state after \<open>mm_malloc 16\<close>, which returns 65856.\<close>

definition hB2 :: heap_state where
  "hB2 =
     \<lparr>mem = (\<lambda>_. 0) (65536 := 65536, 65544 := 65536, 65552 := 65552, 65560 :=
       65552, 65568 := 65568, 65576 := 65568, 65584 := 65584, 65592 := 65584, 65600 :=
       65600, 65608 := 65600, 65616 := 65616, 65624 := 65616, 65632 := 65632, 65640 :=
       65632, 65648 := 65648, 65656 := 65648, 65664 := 65664, 65672 := 65664, 65696 :=
       65696, 65704 := 65696, 65712 := 65712, 65720 := 65712, 65728 := 65728, 65736 :=
       65728, 65744 := 65744, 65752 := 65744, 65760 := 65760, 65768 := 65760, 65776 :=
       65776, 65784 := 65776, 65792 := 0, 65800 := 17, 65808 := 17, 69912 := 1, 65832 :=
       65680, 65824 := 65680, 65816 := 33, 65840 := 33, 65864 := 65680, 65856 := 65680,
       65848 := 33, 65872 := 33, 65880 := 4032, 69904 := 4032, 65680 := 65888, 65688 :=
       65888, 65896 := 65680, 65888 := 65680), mem_start_brk = 65536, mem_brk = 69920,
       mem_max_addr = 21037056, heap_listp = 65808, free_lists = 65536\<rparr>"

text \<open>The state after \<open>mm_malloc 65488\<close>, which returns 65888.\<close>

definition hB3 :: heap_state where
  "hB3 =
     \<lparr>mem = (\<lambda>_. 0) (65536 := 65536, 65544 := 65536, 65552 := 65552, 65560 :=
       65552, 65568 := 65568, 65576 := 65568, 65584 := 65584, 65592 := 65584, 65600 :=
       65600, 65608 := 65600, 65616 := 65616, 65624 := 65616, 65632 := 65632, 65640 :=
       65632, 65648 := 65648, 65656 := 65648, 65664 := 65664, 65672 := 65664, 65696 :=
       65696, 65704 := 65696, 65712 := 65712, 65720 := 65712, 65728 := 65728, 65736 :=
       65728, 65744 := 65744, 65752 := 65744, 65776 := 65776, 65784 := 65776, 65792 := 0,
       65800 := 17, 65808 := 17, 65832 := 65680, 65824 := 65680, 65816 := 33, 65840 := 33,
       65864 := 65680, 65856 := 65680, 65848 := 33, 65872 := 33, 69904 := 4032, 69912 :=
       65520, 135432 := 1, 65896 := 65760, 65888 := 65760, 65880 := 65505, 131376 := 65505,
       65760 := 65760, 65768 := 65760, 131384 := 4048, 135424 := 4048, 65680 := 131392,
       65688 := 131392, 131400 := 65680, 131392 := 65680), mem_start_brk = 65536, mem_brk =
       135440, mem_max_addr = 21037056, heap_listp = 65808, free_lists = 65536\<rparr>"

text \<open>The state after \<open>mm_malloc 16\<close>, which returns 131392.\<close>

definition hB4 :: heap_state where
  "hB4 =
     \<lparr>mem = (\<lambda>_. 0) (65536 := 65536, 65544 := 65536, 65552 := 65552, 65560 :=
       65552, 65568 := 65568, 65576 := 65568, 65584 := 65584, 65592 := 65584, 65600 :=
       65600, 65608 := 65600, 65616 := 65616, 65624 := 65616, 65632 := 65632, 65640 :=
       65632, 65648 := 65648, 65656 := 65648, 65664 := 65664, 65672 := 65664, 65696 :=
       65696, 65704 := 65696, 65712 := 65712, 65720 := 65712, 65728 := 65728, 65736 :=
       65728, 65744 := 65744, 65752 := 65744, 65776 := 65776, 65784 := 65776, 65792 := 0,
       65800 := 17, 65808 := 17, 65832 := 65680, 65824 := 65680, 65816 := 33, 65840 := 33,
       65864 := 65680, 65856 := 65680, 65848 := 33, 65872 := 33, 69904 := 4032, 69912 :=
       65520, 135432 := 1, 65896 := 65760, 65888 := 65760, 65880 := 65505, 131376 := 65505,
       65760 := 65760, 65768 := 65760, 131400 := 65680, 131392 := 65680, 131384 := 33,
       131408 := 33, 131416 := 4016, 135424 := 4016, 65680 := 131424, 65688 := 131424,
       131432 := 65680, 131424 := 65680), mem_start_brk = 65536, mem_brk = 135440,
       mem_max_addr = 21037056, heap_listp = 65808, free_lists = 65536\<rparr>"

text \<open>The state after \<open>mm_malloc 16\<close>, which returns 131424.\<close>

definition hB5 :: heap_state where
  "hB5 =
     \<lparr>mem = (\<lambda>_. 0) (65536 := 65536, 65544 := 65536, 65552 := 65552, 65560 :=
       65552, 65568 := 65568, 65576 := 65568, 65584 := 65584, 65592 := 65584, 65600 :=
       65600, 65608 := 65600, 65616 := 65616, 65624 := 65616, 65632 := 65632, 65640 :=
       65632, 65648 := 65648, 65656 := 65648, 65696 := 65696, 65704 := 65696, 65712 :=
       65712, 65720 := 65712, 65728 := 65728, 65736 := 65728, 65744 := 65744, 65752 :=
       65744, 65776 := 65776, 65784 := 65776, 65792 := 0, 65800 := 17, 65808 := 17, 65832 :=
       65680, 65824 := 65680, 65816 := 33, 65840 := 33, 65864 := 65680, 65856 := 65680,
       65848 := 33, 65872 := 33, 69904 := 4032, 69912 := 65520, 135432 := 1, 65896 := 65760,
       65888 := 65760, 65880 := 65505, 131376 := 65505, 65760 := 65760, 65768 := 65760,
       131400 := 65680, 131392 := 65680, 131384 := 33, 131408 := 33, 131432 := 65680, 131424
       := 65680, 131416 := 33, 131440 := 33, 65680 := 65680, 65688 := 65680, 131448 := 3984,
       135424 := 3984, 65664 := 131456, 65672 := 131456, 131464 := 65664, 131456 := 65664),
       mem_start_brk = 65536, mem_brk = 135440, mem_max_addr = 21037056, heap_listp = 65808,
       free_lists = 65536\<rparr>"

text \<open>The state after \<open>mm_free 65856\<close>.\<close>

definition hB6 :: heap_state where
  "hB6 =
     \<lparr>mem = (\<lambda>_. 0) (65552 := 65552, 65560 := 65552, 65568 := 65568, 65576 :=
       65568, 65584 := 65584, 65592 := 65584, 65600 := 65600, 65608 := 65600, 65616 :=
       65616, 65624 := 65616, 65632 := 65632, 65640 := 65632, 65648 := 65648, 65656 :=
       65648, 65696 := 65696, 65704 := 65696, 65712 := 65712, 65720 := 65712, 65728 :=
       65728, 65736 := 65728, 65744 := 65744, 65752 := 65744, 65776 := 65776, 65784 :=
       65776, 65792 := 0, 65800 := 17, 65808 := 17, 65832 := 65680, 65824 := 65680, 65816 :=
       33, 65840 := 33, 69904 := 4032, 69912 := 65520, 135432 := 1, 65896 := 65760, 65888 :=
       65760, 65880 := 65505, 131376 := 65505, 65760 := 65760, 65768 := 65760, 131400 :=
       65680, 131392 := 65680, 131384 := 33, 131408 := 33, 131432 := 65680, 131424 := 65680,
       131416 := 33, 131440 := 33, 65680 := 65680, 65688 := 65680, 131448 := 3984, 135424 :=
       3984, 65664 := 131456, 65672 := 131456, 131464 := 65664, 131456 := 65664, 65848 :=
       32, 65872 := 32, 65536 := 65856, 65544 := 65856, 65864 := 65536, 65856 := 65536),
       mem_start_brk = 65536, mem_brk = 135440, mem_max_addr = 21037056, heap_listp = 65808,
       free_lists = 65536\<rparr>"

text \<open>The state after \<open>mm_realloc 65824 70000\<close>, which returns 65824.\<close>

definition hB7 :: heap_state where
  "hB7 =
     \<lparr>mem = (\<lambda>_. 0) (65552 := 65552, 65560 := 65552, 65568 := 65568, 65576 :=
       65568, 65584 := 65584, 65592 := 65584, 65600 := 65600, 65608 := 65600, 65616 :=
       65616, 65624 := 65616, 65632 := 65632, 65640 := 65632, 65648 := 65648, 65656 :=
       65648, 65696 := 65696, 65704 := 65696, 65712 := 65712, 65720 := 65712, 65728 :=
       65728, 65736 := 65728, 65744 := 65744, 65752 := 65744, 65776 := 65776, 65784 :=
       65776, 65792 := 0, 65800 := 17, 65808 := 17, 65832 := 65680, 65824 := 65680, 65840 :=
       33, 69904 := 4032, 69912 := 65520, 135432 := 1, 65896 := 65760, 65888 := 65760, 65880
       := 65505, 65760 := 65760, 65768 := 65760, 131400 := 65680, 131392 := 65680, 131384 :=
       33, 131408 := 33, 131432 := 65680, 131424 := 65680, 131416 := 33, 131440 := 33, 65680
       := 65680, 65688 := 65680, 131448 := 3984, 135424 := 3984, 65664 := 131456, 65672 :=
       131456, 131464 := 65664, 131456 := 65664, 65848 := 32, 65872 := 32, 65864 := 65536,
       65856 := 65536, 65536 := 65536, 65544 := 65536, 65816 := 65569, 131376 := 65569),
       mem_start_brk = 65536, mem_brk = 135440, mem_max_addr = 21037056, heap_listp = 65808,
       free_lists = 65536\<rparr>"

text \<open>The state after \<open>mm_free 65824\<close>.\<close>

definition hB8 :: heap_state where
  "hB8 =
     \<lparr>mem = (\<lambda>_. 0) (65552 := 65552, 65560 := 65552, 65568 := 65568, 65576 :=
       65568, 65584 := 65584, 65592 := 65584, 65600 := 65600, 65608 := 65600, 65616 :=
       65616, 65624 := 65616, 65632 := 65632, 65640 := 65632, 65648 := 65648, 65656 :=
       65648, 65696 := 65696, 65704 := 65696, 65712 := 65712, 65720 := 65712, 65728 :=
       65728, 65736 := 65728, 65744 := 65744, 65752 := 65744, 65776 := 65776, 65784 :=
       65776, 65792 := 0, 65800 := 17, 65808 := 17, 65840 := 33, 69904 := 4032, 69912 :=
       65520, 135432 := 1, 65896 := 65760, 65888 := 65760, 65880 := 65505, 131400 := 65680,
       131392 := 65680, 131384 := 33, 131408 := 33, 131432 := 65680, 131424 := 65680, 131416
       := 33, 131440 := 33, 65680 := 65680, 65688 := 65680, 131448 := 3984, 135424 := 3984,
       65664 := 131456, 65672 := 131456, 131464 := 65664, 131456 := 65664, 65848 := 32,
       65872 := 32, 65864 := 65536, 65856 := 65536, 65536 := 65536, 65544 := 65536, 65816 :=
       65568, 131376 := 65568, 65760 := 65824, 65768 := 65824, 65832 := 65760, 65824 :=
       65760), mem_start_brk = 65536, mem_brk = 135440, mem_max_addr = 21037056, heap_listp
       = 65808, free_lists = 65536\<rparr>"

text \<open>The state after \<open>mm_free 65888\<close>.\<close>

definition hB9 :: heap_state where
  "hB9 =
     \<lparr>mem = (\<lambda>_. 0) (65552 := 65552, 65560 := 65552, 65568 := 65568, 65576 :=
       65568, 65584 := 65584, 65592 := 65584, 65600 := 65600, 65608 := 65600, 65616 :=
       65616, 65624 := 65616, 65632 := 65632, 65640 := 65632, 65648 := 65648, 65656 :=
       65648, 65696 := 65696, 65704 := 65696, 65712 := 65712, 65720 := 65712, 65728 :=
       65728, 65736 := 65728, 65744 := 65744, 65752 := 65744, 65776 := 65776, 65784 :=
       65776, 65792 := 0, 65800 := 17, 65808 := 17, 65840 := 33, 69904 := 4032, 69912 :=
       65520, 135432 := 1, 65896 := 65760, 65888 := 65760, 131400 := 65680, 131392 := 65680,
       131384 := 33, 131408 := 33, 131432 := 65680, 131424 := 65680, 131416 := 33, 131440 :=
       33, 65680 := 65680, 65688 := 65680, 131448 := 3984, 135424 := 3984, 65664 := 131456,
       65672 := 131456, 131464 := 65664, 131456 := 65664, 65872 := 32, 65816 := 65568, 65768
       := 65824, 65824 := 65760, 65880 := 65504, 65536 := 65536, 65544 := 65536, 131376 :=
       65536, 65848 := 65536, 65760 := 65856, 65832 := 65856, 65864 := 65760, 65856 :=
       65824), mem_start_brk = 65536, mem_brk = 135440, mem_max_addr = 21037056, heap_listp
       = 65808, free_lists = 65536\<rparr>"

text \<open>The state after \<open>mm_free 131392\<close>.\<close>

definition hB10 :: heap_state where
  "hB10 =
     \<lparr>mem = (\<lambda>_. 0) (65552 := 65552, 65560 := 65552, 65568 := 65568, 65576 :=
       65568, 65584 := 65584, 65592 := 65584, 65600 := 65600, 65608 := 65600, 65616 :=
       65616, 65624 := 65616, 65632 := 65632, 65640 := 65632, 65648 := 65648, 65656 :=
       65648, 65696 := 65696, 65704 := 65696, 65712 := 65712, 65720 := 65712, 65728 :=
       65728, 65736 := 65728, 65744 := 65744, 65752 := 65744, 65776 := 65776, 65784 :=
       65776, 65792 := 0, 65800 := 17, 65808 := 17, 65840 := 33, 69904 := 4032, 69912 :=
       65520, 135432 := 1, 65896 := 65760, 65888 := 65760, 131400 := 65680, 131392 := 65680,
       131432 := 65680, 131424 := 65680, 131416 := 33, 131440 := 33, 65680 := 65680, 65688
       := 65680, 131448 := 3984, 135424 := 3984, 65664 := 131456, 65672 := 131456, 131464 :=
       65664, 131456 := 65664, 65872 := 32, 65816 := 65568, 65768 := 65824, 65824 := 65760,
       65880 := 65504, 65536 := 65536, 65544 := 65536, 131376 := 65536, 131384 := 32, 131408
       := 65568, 65848 := 65568, 65760 := 65856, 65832 := 65856, 65864 := 65760, 65856 :=
       65824), mem_start_brk = 65536, mem_brk = 135440, mem_max_addr = 21037056, heap_listp
       = 65808, free_lists = 65536\<rparr>"

subsection \<open>Notions the properties are stated with\<close>

text \<open>The size that the header of the block at \<open>bp\<close> stores.\<close>

definition block_size :: "heap_state \<Rightarrow> addr \<Rightarrow> 64 word" where
  "block_size s bp = SIZE_BITS (mem s (HDRP bp))"

text \<open>
  \<open>chain s p xs q\<close>: following the \<open>next\<close> pointers from \<open>p\<close> visits exactly the nodes
  \<open>xs\<close>, in this order, and then arrives at \<open>q\<close>; every node and its header can be read.
  \<open>class_list s i xs\<close>: the circular list of size class \<open>i\<close> holds the nodes \<open>xs\<close>.
\<close>

fun chain :: "heap_state \<Rightarrow> addr \<Rightarrow> addr list \<Rightarrow> addr \<Rightarrow> bool" where
  "chain s p [] q \<longleftrightarrow> p = q"
| "chain s p (x # xs) q \<longleftrightarrow>
     p = x \<and> x \<noteq> q \<and> valid s x \<and> valid s (HDRP x) \<and> chain s (mem s x) xs q"

definition class_list :: "heap_state \<Rightarrow> nat \<Rightarrow> addr list \<Rightarrow> bool" where
  "class_list s i xs \<longleftrightarrow>
     valid s (list_head s i) \<and> chain s (mem s (list_head s i)) xs (list_head s i)"

text \<open>The first block of a list whose stored size is at least the requested size.\<close>

definition first_fit :: "heap_state \<Rightarrow> 64 word \<Rightarrow> addr list \<Rightarrow> addr option" where
  "first_fit s asize xs = List.find (\<lambda>bp. asize \<le> block_size s bp) xs"

text \<open>
  The guard of the allocate-copy-free path of \<open>mm_realloc\<close>: the header of \<open>ptr\<close> can
  be read, and none of the earlier returns is taken.
\<close>

definition copy_path :: "heap_state \<Rightarrow> addr \<Rightarrow> 64 word \<Rightarrow> bool" where
  "copy_path s ptr sz \<longleftrightarrow>
     (case GET_SIZE s (HDRP ptr) of
        Inl e \<Rightarrow> False
      | Inr oldsize \<Rightarrow>
          sz \<noteq> 0 \<and> ptr \<noteq> NULL \<and> \<not> realloc_asize sz \<le> oldsize \<and>
          (case NEXT_BLKP s ptr of
             Inl e \<Rightarrow> False
           | Inr nb \<Rightarrow>
               (case GET_SIZE s nb of
                  Inl e \<Rightarrow> False
                | Inr next_size \<Rightarrow>
                    (case GET_ALLOC s nb of
                       Inl e \<Rightarrow> False
                     | Inr na \<Rightarrow>
                         \<not> (na = 0 \<and> (oldsize + next_size) \<le> realloc_asize sz)))))"

text \<open>The size that \<open>mm_realloc\<close> asks \<open>mm_malloc\<close> for on that path.\<close>

definition copy_request :: "heap_state \<Rightarrow> addr \<Rightarrow> 64 word \<Rightarrow> 64 word" where
  "copy_request s ptr sz = MAX_w (block_size s ptr) (realloc_asize sz) * 10"

text \<open>
  The number of bytes to copy in the words of the specification:
  \<open>min(oldPayloadSize, requestedSize)\<close>, the payload being the block without its header
  and footer.
\<close>

definition spec_copy_bytes :: "heap_state \<Rightarrow> addr \<Rightarrow> 64 word \<Rightarrow> 64 word" where
  "spec_copy_bytes s ptr sz = min (block_size s ptr - DSIZE) sz"

text \<open>
  The condition for growing in place in the words of the specification: the adjusted size
  exceeds the size of the block, the header of the physically next block says it is free,
  and the two sizes together are at least the adjusted size.
\<close>

definition spec_can_grow :: "heap_state \<Rightarrow> addr \<Rightarrow> 64 word \<Rightarrow> bool" where
  "spec_can_grow s ptr sz \<longleftrightarrow>
     valid s (HDRP ptr) \<and> valid s (HDRP (ptr + block_size s ptr)) \<and>
     block_size s ptr < realloc_asize sz \<and>
     ALLOC_BIT (mem s (HDRP (ptr + block_size s ptr))) = 0 \<and>
     unat (realloc_asize sz) \<le>
       unat (block_size s ptr) + unat (block_size s (ptr + block_size s ptr))"

text \<open>
  A walk over the blocks as the consistency checker of the source walks them, from the
  prologue to the first header of size 0, looking for a free block whose physically next
  block is free as well.  \<open>Some (Inr True)\<close>: such a pair exists.
\<close>

partial_function (option) adjacent_free_from ::
    "heap_state \<Rightarrow> addr \<Rightarrow> (error + bool) option" where
  "adjacent_free_from s bp =
     (case GET_SIZE s (HDRP bp) of
        Inl e \<Rightarrow> Some (Inl e)
      | Inr sz \<Rightarrow>
          (if sz = 0 then Some (Inr False)
           else (case GET_ALLOC s (HDRP bp) of
              Inl e \<Rightarrow> Some (Inl e)
            | Inr a1 \<Rightarrow>
                (case NEXT_BLKP s bp of
                   Inl e \<Rightarrow> Some (Inl e)
                 | Inr nb \<Rightarrow>
                     (case GET_ALLOC s (HDRP nb) of
                        Inl e \<Rightarrow> Some (Inl e)
                      | Inr a2 \<Rightarrow>
                          (if a1 = 0 \<and> a2 = 0 then Some (Inr True)
                           else adjacent_free_from s nb))))))"

declare adjacent_free_from.simps [code]

definition adjacent_free :: "heap_state \<Rightarrow> (error + bool) option" where
  "adjacent_free s = adjacent_free_from s (heap_listp s)"

section \<open>Properties of the arithmetic\<close>

subsection \<open>Word arithmetic used below\<close>

lemma consts16: "uint DSIZE = 16" "uint ALIGN = 16" "DSIZE = 16" "ALIGN = 16" "WSIZE = 8"
  by (simp_all add: DSIZE_def WSIZE_def ALIGN_def)

lemma mod16_mask: "(x::64 word) mod 16 = x AND 15"
  using word_mod_2p_is_mask[of 4 x] by (simp add: mask_eq_exp_minus_1)

lemma mul_div16: "16 * ((x::64 word) div 16) = x - x mod 16"
  by (metis add_diff_cancel_right' mult.commute div_mult_mod_eq)

lemma add16_mod: "((x::64 word) + 16) mod 16 = x mod 16"
proof -
  have d: "(16::nat) dvd 2 ^ 64" by simp
  have "unat ((x + 16) mod 16) = ((unat x + 16) mod 2 ^ 64) mod 16"
    by (simp add: unat_mod_distrib unat_word_ariths)
  also have "\<dots> = (unat x + 16) mod 16"
    using d by (rule mod_mod_cancel)
  also have "\<dots> = unat (x mod 16)"
    by (simp add: unat_mod_distrib)
  finally show ?thesis by (simp add: word_unat_eq_iff)
qed

lemma and_not_absorb: "(s::64 word) AND m = 0 \<Longrightarrow> s AND NOT m = s"
proof -
  assume h: "s AND m = 0"
  have "s = s AND (m OR NOT m)" by simp
  also have "\<dots> = (s AND m) OR (s AND NOT m)" by (rule bit.conj_disj_distrib)
  finally show ?thesis using h by simp
qed

lemma SIZE_BITS_PACK:
  assumes "sz mod DSIZE = 0" and a: "a = 0 \<or> a = 1"
  shows "SIZE_BITS (PACK sz a) = sz"
proof -
  have m: "sz AND 15 = 0" using assms(1) by (simp add: consts16 mod16_mask)
  have "(sz OR a) AND NOT 15 = (sz AND NOT 15) OR (a AND NOT 15)"
    by (rule bit.conj_disj_distrib2)
  moreover have "a AND NOT 15 = 0" using a by auto
  ultimately show ?thesis using and_not_absorb[OF m]
    by (simp add: SIZE_BITS_def PACK_def consts16)
qed

lemma ALLOC_BIT_PACK:
  assumes "sz mod DSIZE = 0" and a: "a = 0 \<or> a = 1"
  shows "ALLOC_BIT (PACK sz a) = a"
proof -
  have m: "sz AND 15 = 0" using assms(1) by (simp add: consts16 mod16_mask)
  have "sz AND 1 = sz AND (15 AND 1)" by simp
  also have "\<dots> = (sz AND 15) AND 1" by (simp only: and.assoc)
  finally have s1: "sz AND 1 = 0" using m by simp
  have "(sz OR a) AND 1 = (sz AND 1) OR (a AND 1)"
    by (rule bit.conj_disj_distrib2)
  moreover have "a AND 1 = a" using a by auto
  ultimately show ?thesis using s1 by (simp add: ALLOC_BIT_def PACK_def)
qed

lemma GET_PUT_same: "PUT s p v = Inr s' \<Longrightarrow> GET s' p = Inr v"
  by (auto simp: PUT_def GET_def valid_def split: if_splits)

subsection \<open>Boundary tags\<close>

text \<open>
  C10.  The boundary-tag encoding round-trips.  For a size that is a multiple of the
  doubleword and an allocated flag that is 0 or 1, the packed word decodes to both
  fields; and once \<open>PUT\<close> has stored the packed word at an accessible address,
  \<open>GET_SIZE\<close> and \<open>GET_ALLOC\<close> at that address read the size and the flag back.
\<close>

theorem pack_roundtrip:
  assumes "sz mod DSIZE = 0" and "a = 0 \<or> a = 1" and "valid s p"
  shows "SIZE_BITS (PACK sz a) = sz \<and> ALLOC_BIT (PACK sz a) = a \<and>
         then_do (PUT s p (PACK sz a)) (\<lambda>s'. GET_SIZE s' p) = Inr sz \<and>
         then_do (PUT s p (PACK sz a)) (\<lambda>s'. GET_ALLOC s' p) = Inr a"
proof -
  obtain s' where p: "PUT s p (PACK sz a) = Inr s'"
    using assms(3) by (simp add: PUT_def)
  have g: "GET s' p = Inr (PACK sz a)" using p by (rule GET_PUT_same)
  show ?thesis
    using SIZE_BITS_PACK[OF assms(1,2)] ALLOC_BIT_PACK[OF assms(1,2)]
    by (simp add: p g then_do_def GET_SIZE_def GET_ALLOC_def)
qed

theorem pack_roundtrip_witness:
  "(4096 :: 64 word) mod DSIZE = 0 \<and> valid fresh_memory 0x10008 \<and>
   SIZE_BITS (PACK 4096 1) = 4096 \<and> ALLOC_BIT (PACK 4096 1) = 1 \<and>
   then_do (PUT fresh_memory 0x10008 (PACK 4096 1)) (\<lambda>s'. GET_SIZE s' 0x10008) = Inr 4096 \<and>
   then_do (PUT fresh_memory 0x10008 (PACK 4096 1)) (\<lambda>s'. GET_ALLOC s' 0x10008) = Inr 1"
proof -
  have h1: "(4096 :: 64 word) mod DSIZE = 0" by (simp add: consts16)
  have h2: "(1 :: 64 word) = 0 \<or> (1 :: 64 word) = 1" by simp
  have h3: "valid fresh_memory 0x10008"
    by (simp add: valid_def fresh_memory_def consts16)
  show ?thesis using h1 h3 pack_roundtrip[OF h1 h2 h3] by simp
qed

subsection \<open>Size classes\<close>

lemma find_explicit_cutoff:
  "k < 14 \<Longrightarrow> (find_explicit a \<le> k \<longleftrightarrow> a \<le> cutoffs ! k)"
proof -
  assume "k < 14"
  then consider "k = 0" | "k = 1" | "k = 2" | "k = 3" | "k = 4" | "k = 5" | "k = 6"
    | "k = 7" | "k = 8" | "k = 9" | "k = 10" | "k = 11" | "k = 12" | "k = 13"
    by atomize_elim arith
  then show ?thesis
    by cases (simp_all add: find_explicit_def cutoffs_def word_le_nat_alt)
qed

lemma find_explicit_count: "find_explicit sz = length (filter (\<lambda>c. c < sz) cutoffs)"
  unfolding find_explicit_def cutoffs_def
  by (simp add: word_le_nat_alt word_less_nat_alt)

lemma find_explicit_mono: "a \<le> b \<Longrightarrow> find_explicit a \<le> find_explicit b"
proof -
  assume ab: "a \<le> b"
  have "length (filter (\<lambda>c. c < a) cutoffs) =
        length (filter (\<lambda>c. c < a) (filter (\<lambda>c. c < b) cutoffs))"
    using ab by (simp add: conj_commute less_le_trans cong: conj_cong)
  also have "\<dots> \<le> length (filter (\<lambda>c. c < b) cutoffs)"
    by (rule length_filter_le)
  finally show ?thesis by (simp add: find_explicit_count)
qed

lemma find_explicit_le14: "find_explicit a \<le> 14"
  by (simp add: find_explicit_def)

text \<open>
  C3, as stated, fails.  With sixteen classes the top class would be class 15, the last
  of the \<open>NUM\<close> list heads; but the largest size there is, \<open>2^64 - 1\<close>, is in class 14.
\<close>

theorem find_explicit_top_class_counterexample:
  "find_explicit 18446744073709551615 = 14 \<and> find_explicit 18446744073709551615 \<noteq> NUM - 1"
  by (simp add: find_explicit_def NUM_def)

text \<open>
  C3, amended.  \<open>find_explicit\<close> is a total, monotonic step function onto fifteen
  classes, 0 to 14: a size is in class \<open>k\<close> or below exactly when it is at most the
  \<open>k\<close>-th cutoff (64, 128, 256, 500, 750, 1000, 2000, ..., 9000), and class 14 takes every
  size above 9000.  The sixteenth list head is never selected.
\<close>

theorem find_explicit_classes:
  "find_explicit a \<le> 14 \<and>
   (\<forall>k<14. find_explicit a \<le> k \<longleftrightarrow> a \<le> cutoffs ! k) \<and>
   (find_explicit a = 14 \<longleftrightarrow> 9000 < a) \<and>
   (a \<le> b \<longrightarrow> find_explicit a \<le> find_explicit b)"
proof -
  have "find_explicit a = 14 \<longleftrightarrow> 9000 < a"
    using find_explicit_cutoff[of 13 a] find_explicit_le14[of a]
    by (auto simp: cutoffs_def not_le[symmetric])
  then show ?thesis
    using find_explicit_cutoff find_explicit_mono find_explicit_le14 by blast
qed

theorem find_explicit_classes_witness:
  "(100 :: 64 word) \<le> 9001 \<and> find_explicit 100 \<le> find_explicit 9001 \<and>
   (1 :: nat) < 14 \<and> find_explicit 100 \<le> 1 \<and> (100 :: 64 word) \<le> cutoffs ! 1 \<and>
   find_explicit 9001 = 14"
proof -
  have h: "(100 :: 64 word) \<le> 9001" by simp
  have c: "(100 :: 64 word) \<le> cutoffs ! 1" by (simp add: cutoffs_def)
  have t: "find_explicit 9001 = 14" by (simp add: find_explicit_def)
  from find_explicit_classes[of 100 9001] h c t show ?thesis by simp
qed

subsection \<open>Adjusted sizes\<close>

lemma asize_agree: "realloc_asize n = malloc_asize n"
proof -
  have e: "(n + 31) mod 16 = (n + 15) mod 16"
    using add16_mod[of "n + 15"] by (simp add: add.assoc)
  have "16 * ((n + 15) div 16) + 16 = 16 * ((n + 31) div 16)"
    by (simp add: mul_div16 e)
  then show ?thesis
    by (simp add: malloc_asize_def realloc_asize_def consts16 add.commute add.left_commute)
qed

lemma malloc_asize_spec:
  assumes b: "unat n + 31 < 2 ^ 64"
  shows "uint (malloc_asize n) = spec_asize (uint n)"
proof (cases "n \<le> 16")
  case True
  have "uint n \<le> 16" using True by (simp add: word_le_def)
  moreover have "0 \<le> uint n" by simp
  ultimately have "16 * ((uint n + 15) div 16) \<le> 16" by presburger
  then have "spec_asize (uint n) = 32"
    by (simp add: spec_asize_def roundUp_def consts16)
  moreover have "malloc_asize n = 32" using True
    by (simp add: malloc_asize_def consts16)
  ultimately show ?thesis by simp
next
  case False
  from unat_add_lem[of n 15] b have a1: "unat (n + 15) = unat n + 15" by simp
  have a2: "unat ((n + 15) div 16) = (unat n + 15) div 16"
    by (simp add: unat_div a1)
  have lt: "(unat n + 15) div 16 < 1152921504606846976" using b by simp
  from unat_mult_lem[of 16 "(n + 15) div 16"] lt a2
  have a3: "unat (16 * ((n + 15) div 16)) = 16 * ((unat n + 15) div 16)" by simp
  have lt2: "(unat n + 15) div 16 < 1152921504606846975" using b by simp
  from unat_add_lem[of "16 * ((n + 15) div 16)" 16] lt2 a3
  have a4: "unat (16 * ((n + 15) div 16) + 16) = 16 * ((unat n + 15) div 16) + 16" by simp
  have n16i: "16 < uint n" using False by (simp add: word_le_def not_le)
  have ge: "32 \<le> 16 * ((uint n + 15) div 16) + 16" using n16i by presburger
  have m: "malloc_asize n = 16 * ((n + 15) div 16) + 16"
    using False by (simp add: malloc_asize_def consts16)
  have "uint (malloc_asize n) = int (unat (malloc_asize n))" by (rule uint_nat)
  also have "\<dots> = int (16 * ((unat n + 15) div 16) + 16)"
    by (simp only: m a4)
  also have "\<dots> = 16 * ((uint n + 15) div 16) + 16"
    by (simp add: zdiv_int)
  also have "\<dots> = spec_asize (uint n)"
    using ge by (simp add: spec_asize_def roundUp_def consts16)
  finally show ?thesis .
qed

text \<open>
  C6, as stated, fails.  For the request \<open>2^64 - 1\<close> the addition in the rounding wraps
  around: both functions compute 16, less than two doublewords, while the formula of the
  specification is never below 32.
\<close>

theorem asize_formula_counterexample:
  "realloc_asize 18446744073709551615 = 16 \<and> malloc_asize 18446744073709551615 = 16 \<and>
   uint (realloc_asize 18446744073709551615) \<noteq> spec_asize (uint (18446744073709551615 :: 64 word))"
  by (simp add: realloc_asize_def malloc_asize_def spec_asize_def roundUp_def consts16)

text \<open>
  C6, amended.  For every requested size \<open>mm_realloc\<close> computes the same adjusted
  size as \<open>mm_malloc\<close> (also where the arithmetic wraps around); and for every request of
  at most \<open>2^64 - 32\<close> bytes, where nothing wraps, that size is
  \<open>max(2*doubleword, roundUp(n, alignment) + doubleword)\<close>.
\<close>

theorem asize_same_rule:
  "realloc_asize n = malloc_asize n \<and>
   (unat n + 31 < 2 ^ 64 \<longrightarrow> uint (realloc_asize n) = spec_asize (uint n))"
  using malloc_asize_spec[of n] by (simp add: asize_agree)

theorem asize_same_rule_witness:
  "unat (100 :: 64 word) + 31 < 2 ^ 64 \<and> realloc_asize 100 = malloc_asize 100 \<and>
   uint (realloc_asize 100) = spec_asize (uint (100 :: 64 word)) \<and>
   realloc_asize 100 = 128"
proof -
  have h: "unat (100 :: 64 word) + 31 < 2 ^ 64" by simp
  have v: "realloc_asize 100 = 128" by (simp add: realloc_asize_def consts16)
  from asize_same_rule[of 100] h v show ?thesis by simp
qed

subsection \<open>Sequencing, and pointers that cannot be null\<close>

lemma then_do_Inr: "then_do m f = Inr y \<longleftrightarrow> (\<exists>x. m = Inr x \<and> f x = Inr y)"
  by (cases m) (simp_all add: then_do_def)

lemma then_do_Inl [simp]: "then_do (Inl e) f = Inl e"
  by (simp add: then_do_def)

lemma then_do_Inr_val [simp]: "then_do (Inr x) f = f x"
  by (simp add: then_do_def)

lemma HDRP_NULL_invalid: "\<not> valid s (HDRP NULL)"
  using unsigned_less[of "mem_max_addr s", where ?'a = nat]
  by (simp add: valid_def HDRP_def NULL_def consts16 not_le)

lemma GET_SIZE_HDRP_NULL: "GET_SIZE s (HDRP NULL) = Inl BadAccess"
  by (simp add: GET_SIZE_def GET_def HDRP_NULL_invalid)

lemma GET_SIZE_nonnull: "GET_SIZE s (HDRP p) = Inr v \<Longrightarrow> p \<noteq> NULL"
  using GET_SIZE_HDRP_NULL[of s] by auto

lemma GET_SIZE_block_size: "GET_SIZE s (HDRP p) = Inr v \<Longrightarrow> v = block_size s p"
  by (auto simp: GET_SIZE_def GET_def block_size_def split: if_splits)

lemma insertBlock_nonnull: "insertBlock s bp = Inr s' \<Longrightarrow> bp \<noteq> NULL"
  by (auto simp: insertBlock_def then_do_Inr dest: GET_SIZE_nonnull)

lemma coalesce_nonnull: "coalesce s bp = Inr (r, s') \<Longrightarrow> r \<noteq> NULL"
  unfolding coalesce_def Let_def
  by (auto simp: then_do_Inr split: if_splits dest: insertBlock_nonnull)

lemma extend_heap_NULL: "extend_heap s w = Inr (NULL, s') \<Longrightarrow> s' = s"
  unfolding extend_heap_def Let_def
  by (auto simp: then_do_Inr split: option.splits dest: coalesce_nonnull)

lemma mm_malloc_NULL: "mm_malloc s n = Inr (NULL, s') \<Longrightarrow> s' = s"
  unfolding mm_malloc_def Let_def
  by (auto simp: then_do_Inr split: if_splits dest: extend_heap_NULL)

subsection \<open>The paths of \<open>mm_realloc\<close>\<close>

lemma mm_realloc_NULL: "mm_realloc s NULL n = Inl BadAccess"
  by (simp add: mm_realloc_def GET_SIZE_HDRP_NULL)

lemma mm_realloc_zero:
  "p \<noteq> NULL \<Longrightarrow> mm_realloc s p 0 = then_do (mm_free s p) (\<lambda>s'. Inr (NULL, s'))"
  by (cases "GET_SIZE s (HDRP p)") (simp_all add: mm_realloc_def mm_free_def)

lemma mm_realloc_copy_path:
  assumes "copy_path s p n"
  shows "mm_realloc s p n =
           then_do (mm_malloc s (copy_request s p n)) (\<lambda>(newptr, s1).
             if newptr = NULL then Inr (NULL, s1)
             else then_do (memcpy s1 newptr p (block_size s p)) (\<lambda>s2.
                  then_do (mm_free s2 p) (\<lambda>s3. Inr (newptr, s3))))"
proof -
  from assms obtain oldsize nb next_size na where
    g: "GET_SIZE s (HDRP p) = Inr oldsize" and n0: "n \<noteq> 0" and p0: "p \<noteq> NULL"
    and big: "\<not> realloc_asize n \<le> oldsize"
    and nb: "NEXT_BLKP s p = Inr nb" and ns: "GET_SIZE s nb = Inr next_size"
    and na: "GET_ALLOC s nb = Inr na"
    and no: "\<not> (na = 0 \<and> oldsize + next_size \<le> realloc_asize n)"
    by (auto simp: copy_path_def split: sum.splits)
  have o: "oldsize = block_size s p" using g by (rule GET_SIZE_block_size)
  show ?thesis
    unfolding mm_realloc_def Let_def
    using n0 p0 big no
    by (auto simp: g nb ns na copy_request_def o)
qed

subsection \<open>\<open>memcpy\<close>\<close>

text \<open>A size read from a boundary tag is a whole number of words.\<close>

lemma block_size_words: "unat (block_size s p) = 8 * unat (block_size s p div WSIZE)"
proof -
  let ?x = "block_size s p"
  have "?x AND 15 = mem s (HDRP p) AND (NOT 15 AND 15)"
    by (simp only: block_size_def SIZE_BITS_def consts16 and.assoc) simp
  then have "?x mod 16 = 0" by (simp add: mod16_mask)
  then have "unat ?x mod 16 = 0" by (simp add: word_unat_eq_iff unat_mod_distrib)
  then have "unat ?x mod 8 = 0" by presburger
  then have "unat ?x = 8 * (unat ?x div 8)" by presburger
  then show ?thesis by (simp add: unat_div consts16)
qed

lemma valid_next_word: "valid s p \<Longrightarrow> unat (p + WSIZE) = unat p + 8"
proof -
  assume v: "valid s p"
  have "unat p + unat WSIZE \<le> unat (mem_max_addr s)" using v by (simp add: valid_def)
  moreover have "unat (mem_max_addr s) < 2 ^ 64"
    using unsigned_less[of "mem_max_addr s", where ?'a = nat] by simp
  ultimately have "unat p + unat WSIZE < 2 ^ LENGTH(64)" by simp
  then have "unat (p + WSIZE) = unat p + unat WSIZE"
    by (simp only: unat_add_lem[THEN iffD1])
  then show ?thesis by (simp add: consts16)
qed

lemma PUT_valid: "PUT s p v = Inr s' \<Longrightarrow> valid s p \<and> s' = s\<lparr>mem := (mem s)(p := v)\<rparr>"
  by (auto simp: PUT_def split: if_splits)

lemma GET_valid: "GET s p = Inr w \<Longrightarrow> valid s p \<and> w = mem s p"
  by (auto simp: GET_def split: if_splits)

lemma copy_words_below:
  "copy_words s d sr k = Inr s' \<Longrightarrow> unat q < unat d \<Longrightarrow> mem s' q = mem s q"
proof (induction k arbitrary: s d sr)
  case 0
  then show ?case by simp
next
  case (Suc k)
  from Suc.prems(1) obtain w s1 where g: "GET s sr = Inr w" and p: "PUT s d w = Inr s1"
    and r: "copy_words s1 (d + WSIZE) (sr + WSIZE) k = Inr s'"
    by (auto simp: then_do_Inr)
  from PUT_valid[OF p] have vd: "valid s d" and s1: "s1 = s\<lparr>mem := (mem s)(d := w)\<rparr>" by simp_all
  have "unat q < unat (d + WSIZE)" using Suc.prems(2) valid_next_word[OF vd] by simp
  then have "mem s' q = mem s1 q" using Suc.IH[OF r] by simp
  moreover have "q \<noteq> d" using Suc.prems(2) by auto
  ultimately show ?case by (simp add: s1)
qed

lemma copy_words_above:
  "copy_words s d sr k = Inr s' \<Longrightarrow> unat d + 8 * k \<le> unat q \<Longrightarrow> mem s' q = mem s q"
proof (induction k arbitrary: s d sr)
  case 0
  then show ?case by simp
next
  case (Suc k)
  from Suc.prems(1) obtain w s1 where g: "GET s sr = Inr w" and p: "PUT s d w = Inr s1"
    and r: "copy_words s1 (d + WSIZE) (sr + WSIZE) k = Inr s'"
    by (auto simp: then_do_Inr)
  from PUT_valid[OF p] have vd: "valid s d" and s1: "s1 = s\<lparr>mem := (mem s)(d := w)\<rparr>" by simp_all
  have "unat (d + WSIZE) + 8 * k \<le> unat q" using Suc.prems(2) valid_next_word[OF vd] by simp
  then have "mem s' q = mem s1 q" using Suc.IH[OF r] by simp
  moreover have "q \<noteq> d" using Suc.prems(2) by auto
  ultimately show ?case by (simp add: s1)
qed

lemma copy_words_src:
  "copy_words s d sr k = Inr s' \<Longrightarrow> i < k \<Longrightarrow>
   unat (sr + WSIZE * of_nat i) = unat sr + 8 * i"
proof (induction k arbitrary: s d sr i)
  case 0
  then show ?case by simp
next
  case (Suc k)
  from Suc.prems(1) obtain w s1 where g: "GET s sr = Inr w" and p: "PUT s d w = Inr s1"
    and r: "copy_words s1 (d + WSIZE) (sr + WSIZE) k = Inr s'"
    by (auto simp: then_do_Inr)
  from GET_valid[OF g] have vs: "valid s sr" by simp
  show ?case
  proof (cases i)
    case 0
    then show ?thesis by simp
  next
    case (Suc j)
    then have jk: "j < k" using Suc.prems(2) by simp
    have e: "WSIZE * (1 + of_nat j) = WSIZE + WSIZE * (of_nat j :: 64 word)"
      by (simp add: distrib_left)
    have "unat (sr + WSIZE + WSIZE * of_nat j) = unat (sr + WSIZE) + 8 * j"
      using Suc.IH[OF r jk] .
    then show ?thesis using valid_next_word[OF vs] by (simp add: Suc e add.assoc)
  qed
qed

lemma copy_words_content:
  "copy_words s d sr k = Inr s' \<Longrightarrow>
   unat d + 8 * k \<le> unat sr \<or> unat sr + 8 * k \<le> unat d \<Longrightarrow> i < k \<Longrightarrow>
   mem s' (d + WSIZE * of_nat i) = mem s (sr + WSIZE * of_nat i)"
proof (induction k arbitrary: s d sr i)
  case 0
  then show ?case by simp
next
  case (Suc k)
  from Suc.prems(1) obtain w s1 where g: "GET s sr = Inr w" and p: "PUT s d w = Inr s1"
    and r: "copy_words s1 (d + WSIZE) (sr + WSIZE) k = Inr s'"
    by (auto simp: then_do_Inr)
  from PUT_valid[OF p] have vd: "valid s d" and s1: "s1 = s\<lparr>mem := (mem s)(d := w)\<rparr>" by simp_all
  from GET_valid[OF g] have vs: "valid s sr" and w: "w = mem s sr" by simp_all
  note ud = valid_next_word[OF vd] and us = valid_next_word[OF vs]
  show ?case
  proof (cases i)
    case 0
    have "mem s' d = mem s1 d" using copy_words_below[OF r, of d] ud by simp
    then show ?thesis using 0 by (simp add: s1 w)
  next
    case (Suc j)
    then have jk: "j < k" using Suc.prems(3) by simp
    have sep: "unat (d + WSIZE) + 8 * k \<le> unat (sr + WSIZE) \<or>
               unat (sr + WSIZE) + 8 * k \<le> unat (d + WSIZE)"
      using Suc.prems(2) ud us by auto
    have ih: "mem s' (d + WSIZE + WSIZE * of_nat j) = mem s1 (sr + WSIZE + WSIZE * of_nat j)"
      using Suc.IH[OF r sep jk] .
    have src: "mem s1 (sr + WSIZE + WSIZE * of_nat j) = mem s (sr + WSIZE + WSIZE * of_nat j)"
    proof (cases "sr + WSIZE + WSIZE * of_nat j = d")
      case False
      then show ?thesis by (simp add: s1)
    next
      case True
      have "unat (sr + WSIZE + WSIZE * of_nat j) = unat (sr + WSIZE) + 8 * j"
        using copy_words_src[OF r jk] .
      then have "unat d = unat sr + 8 + 8 * j" using True us by simp
      then have False using Suc.prems(2) jk by auto
      then show ?thesis ..
    qed
    have e: "WSIZE * (1 + of_nat j) = WSIZE + WSIZE * (of_nat j :: 64 word)"
      by (simp add: distrib_left)
    show ?thesis using ih src by (simp add: Suc e add.assoc)
  qed
qed

subsection \<open>The fit search over well-formed lists\<close>

lemma scan_list_chain:
  "chain s p xs temp \<Longrightarrow> scan_list s temp asize p = Some (Inr (first_fit s asize xs))"
proof (induction xs arbitrary: p)
  case Nil
  then show ?case by (simp add: scan_list.simps first_fit_def)
next
  case (Cons x xs)
  then have px: "p = x" and ne: "x \<noteq> temp" and v: "valid s x" and vh: "valid s (HDRP x)"
    and ch: "chain s (mem s x) xs temp" by simp_all
  have g: "GET_SIZE s (HDRP x) = Inr (block_size s x)"
    using vh by (simp add: GET_SIZE_def GET_def block_size_def)
  have n: "Node_next s x = Inr (mem s x)"
    using v by (simp add: Node_next_def GET_def)
  show ?case
  proof (cases "asize \<le> block_size s x")
    case True
    then show ?thesis
      using px ne g by (subst scan_list.simps) (simp add: first_fit_def)
  next
    case False
    then show ?thesis
      using px ne g n Cons.IH[OF ch]
      by (subst scan_list.simps) (simp add: first_fit_def)
  qed
qed

lemma first_fit_append:
  "first_fit s asize (xs @ ys) =
     (case first_fit s asize xs of Some b \<Rightarrow> Some b | None \<Rightarrow> first_fit s asize ys)"
  by (induction xs) (simp_all add: first_fit_def)

lemma find_fit_from_lists:
  assumes "\<forall>j. i \<le> j \<and> j < NUM \<longrightarrow> class_list s j (nodes j)"
  shows "find_fit_from s asize i =
           Inr (case first_fit s asize (concat (map nodes [i..<NUM])) of
                  Some bp \<Rightarrow> bp | None \<Rightarrow> NULL)"
  using assms
proof (induction s asize i rule: find_fit_from.induct)
  case (1 s asize i)
  show ?case
  proof (cases "i < NUM")
    case False
    then show ?thesis by (subst find_fit_from.simps) (simp add: first_fit_def)
  next
    case True
    have cl: "class_list s i (nodes i)" using "1.prems" True by simp
    then have nx: "Node_next s (list_head s i) = Inr (mem s (list_head s i))"
      by (simp add: class_list_def Node_next_def GET_def)
    have sc: "scan_list s (list_head s i) asize (mem s (list_head s i)) =
                Some (Inr (first_fit s asize (nodes i)))"
      using cl by (simp add: class_list_def scan_list_chain)
    have up: "[i..<NUM] = i # [i + 1..<NUM]" using True by (simp add: upt_rec)
    show ?thesis
    proof (cases "first_fit s asize (nodes i)")
      case (Some bp)
      then show ?thesis
        using True nx sc
        by (subst find_fit_from.simps) (simp add: up first_fit_append)
    next
      case None
      have rest: "\<forall>j. i + 1 \<le> j \<and> j < NUM \<longrightarrow> class_list s j (nodes j)"
        using "1.prems" by simp
      have ih: "find_fit_from s asize (i + 1) =
           Inr (case first_fit s asize (concat (map nodes [i + 1..<NUM])) of
                  Some bp \<Rightarrow> bp | None \<Rightarrow> NULL)"
        using "1.IH"[OF True refl sc rest] .
      show ?thesis
        using True nx sc None ih
        by (subst find_fit_from.simps) (simp add: up first_fit_append)
    qed
  qed
qed

lemma chain_nonnull: "chain s p xs q \<Longrightarrow> x \<in> set xs \<Longrightarrow> x \<noteq> NULL"
proof (induction xs arbitrary: p)
  case Nil
  then show ?case by simp
next
  case (Cons y ys)
  then show ?case using HDRP_NULL_invalid[of s] by auto
qed

lemma first_fit_None: "first_fit s asize xs = None \<longleftrightarrow> (\<forall>bp \<in> set xs. \<not> asize \<le> block_size s bp)"
  by (auto simp: first_fit_def find_None_iff)

lemma first_fit_Some_mem: "first_fit s asize xs = Some bp \<Longrightarrow> bp \<in> set xs"
  by (auto simp: first_fit_def find_Some_iff)

subsection \<open>The recorded runs, step by step\<close>

lemmas model_defs =
  mm_init_def mm_malloc_def mm_free_def mm_realloc_def extend_heap_def coalesce_def
  place_def find_fit_def insertBlock_def deleteBlock_def mem_sbrk_def memcpy_def
  GET_def PUT_def valid_def GET_SIZE_def GET_ALLOC_def FTRP_def NEXT_BLKP_def PREV_BLKP_def
  HDRP_def Node_next_def Node_prev_def set_next_def set_prev_def list_head_def then_do_def
  SIZE_BITS_def ALLOC_BIT_def PACK_def WSIZE_def DSIZE_def ALIGN_def NUM_def NULL_def
  CHUNKSIZE_def malloc_asize_def realloc_asize_def MAX_w_def find_explicit_def
  fresh_memory_def large_memory_def scan_list.simps

lemma copy_words_numeral:
  "copy_words s dst src (numeral k) =
     then_do (GET s src) (\<lambda>w. then_do (PUT s dst w) (\<lambda>s1.
       copy_words s1 (dst + WSIZE) (src + WSIZE) (pred_numeral k)))"
  by (simp add: numeral_eq_Suc)

lemma step_init: "mm_init fresh_memory = Inr (0, hA0)"
  by (simp add: hA0_def model_defs copy_words_numeral)

lemma step_malloc_a: "mm_malloc hA0 16 = Inr (65824, hA1)"
  by (simp add: hA0_def hA1_def model_defs copy_words_numeral)

lemma step_realloc_a: "mm_realloc hA1 65824 24 = Inr (65856, hA2)"
  by (simp add: hA1_def hA2_def model_defs copy_words_numeral)

lemma step_malloc_480: "mm_malloc hA1 480 = Inr (65856, hA1m)"
  by (simp add: hA1_def hA1m_def model_defs copy_words_numeral)

lemma step_free_a: "mm_free hA1 65824 = Inr hA1f"
  by (simp add: hA1_def hA1f_def model_defs copy_words_numeral)

lemma step_realloc_a_0: "mm_realloc hA1 65824 0 = Inr (0, hA1f)"
  by (simp add: hA1_def hA1f_def model_defs copy_words_numeral)

lemma step_realloc_a_5000: "mm_realloc hA1 65824 5000 = Inr (0, hA1)"
  by (simp add: hA1_def model_defs copy_words_numeral)

lemma step_malloc_50240: "mm_malloc hA1 50240 = Inr (0, hA1)"
  by (simp add: hA1_def model_defs copy_words_numeral)

lemma big_step_init: "mm_init large_memory = Inr (0, hB0)"
  by (simp add: hB0_def model_defs copy_words_numeral)

lemma big_step_1: "mm_malloc hB0 16 = Inr (65824, hB1)"
  by (simp add: hB0_def hB1_def model_defs copy_words_numeral)

lemma big_step_2: "mm_malloc hB1 16 = Inr (65856, hB2)"
  by (simp add: hB1_def hB2_def model_defs copy_words_numeral)

lemma big_step_3: "mm_malloc hB2 65488 = Inr (65888, hB3)"
  by (simp add: hB2_def hB3_def model_defs copy_words_numeral)

lemma big_step_4: "mm_malloc hB3 16 = Inr (131392, hB4)"
  by (simp add: hB3_def hB4_def model_defs copy_words_numeral)

lemma big_step_5: "mm_malloc hB4 16 = Inr (131424, hB5)"
  by (simp add: hB4_def hB5_def model_defs copy_words_numeral)

lemma big_step_6: "mm_free hB5 65856 = Inr hB6"
  by (simp add: hB5_def hB6_def model_defs copy_words_numeral)

lemma big_step_7: "mm_realloc hB6 65824 70000 = Inr (65824, hB7)"
  by (simp add: hB6_def hB7_def model_defs copy_words_numeral)

lemma big_step_8: "mm_free hB7 65824 = Inr hB8"
  by (simp add: hB7_def hB8_def model_defs copy_words_numeral)

lemma big_step_9: "mm_free hB8 65888 = Inr hB9"
  by (simp add: hB8_def hB9_def model_defs copy_words_numeral)

lemma big_step_10: "mm_free hB9 131392 = Inr hB10"
  by (simp add: hB9_def hB10_def model_defs copy_words_numeral)

section \<open>Properties of the operations\<close>

subsection \<open>Fit search\<close>

text \<open>
  C7.  Let the circular list of every size class from \<open>find_explicit asize\<close> upwards be
  well formed, holding the nodes \<open>nodes j\<close> in list order.  Then \<open>find_fit\<close> returns, and what
  it returns is the first block, in the order class by class and within a class along the
  list, whose stored size is at least \<open>asize\<close>; it returns \<open>NULL\<close> exactly when no block of
  these classes is large enough.
\<close>

theorem find_fit_first_fit:
  assumes "\<forall>j. find_explicit asize \<le> j \<and> j < NUM \<longrightarrow> class_list s j (nodes j)"
  shows "find_fit s asize =
           Inr (case first_fit s asize (concat (map nodes [find_explicit asize..<NUM])) of
                  Some bp \<Rightarrow> bp | None \<Rightarrow> NULL) \<and>
         (find_fit s asize = Inr NULL \<longleftrightarrow>
            (\<forall>j. find_explicit asize \<le> j \<and> j < NUM \<longrightarrow>
               (\<forall>bp \<in> set (nodes j). \<not> asize \<le> block_size s bp)))"
proof -
  let ?all = "concat (map nodes [find_explicit asize..<NUM])"
  have eq: "find_fit s asize =
      Inr (case first_fit s asize ?all of Some bp \<Rightarrow> bp | None \<Rightarrow> NULL)"
    unfolding find_fit_def using assms by (rule find_fit_from_lists)
  have nn: "bp \<noteq> NULL" if "bp \<in> set ?all" for bp
  proof -
    from that obtain j where j: "find_explicit asize \<le> j" "j < NUM" and m: "bp \<in> set (nodes j)"
      by auto
    from assms j have "chain s (mem s (list_head s j)) (nodes j) (list_head s j)"
      by (simp add: class_list_def)
    then show ?thesis using m by (rule chain_nonnull)
  qed
  have "find_fit s asize = Inr NULL \<longleftrightarrow> first_fit s asize ?all = None"
  proof (cases "first_fit s asize ?all")
    case None
    then show ?thesis by (simp add: eq)
  next
    case (Some bp)
    then have "bp \<noteq> NULL" using nn first_fit_Some_mem by blast
    then show ?thesis using Some by (simp add: eq)
  qed
  also have "\<dots> \<longleftrightarrow> (\<forall>j. find_explicit asize \<le> j \<and> j < NUM \<longrightarrow>
               (\<forall>bp \<in> set (nodes j). \<not> asize \<le> block_size s bp))"
    by (auto simp: first_fit_None)
  finally show ?thesis using eq by simp
qed

theorem find_fit_first_fit_witness:
  "class_list hA2 0 [65824] \<and> class_list hA2 1 [] \<and> class_list hA2 2 [] \<and>
   class_list hA2 3 [] \<and> class_list hA2 4 [] \<and> class_list hA2 5 [] \<and>
   class_list hA2 6 [] \<and> class_list hA2 7 [] \<and> class_list hA2 8 [66352] \<and>
   class_list hA2 9 [] \<and> class_list hA2 10 [] \<and> class_list hA2 11 [] \<and>
   class_list hA2 12 [] \<and> class_list hA2 13 [] \<and> class_list hA2 14 [] \<and>
   class_list hA2 15 [] \<and> find_explicit 48 = 0 \<and>
   block_size hA2 65824 = 32 \<and> block_size hA2 66352 = 3568 \<and>
   find_fit hA2 48 = Inr 66352"
proof -
  let ?nodes = "\<lambda>j::nat. if j = 0 then [65824 :: addr] else if j = 8 then [66352] else []"
  have c: "class_list hA2 0 [65824]" "class_list hA2 1 []" "class_list hA2 2 []"
    "class_list hA2 3 []" "class_list hA2 4 []" "class_list hA2 5 []"
    "class_list hA2 6 []" "class_list hA2 7 []" "class_list hA2 8 [66352]"
    "class_list hA2 9 []" "class_list hA2 10 []" "class_list hA2 11 []"
    "class_list hA2 12 []" "class_list hA2 13 []" "class_list hA2 14 []"
    "class_list hA2 15 []"
    by (simp_all add: class_list_def list_head_def valid_def HDRP_def hA2_def consts16)
  have h: "\<forall>j. find_explicit 48 \<le> j \<and> j < NUM \<longrightarrow> class_list hA2 j (?nodes j)"
  proof (intro allI impI)
    fix j :: nat
    assume "find_explicit 48 \<le> j \<and> j < NUM"
    then have "j < 16" by (simp add: NUM_def)
    then consider "j = 0" | "j = 1" | "j = 2" | "j = 3" | "j = 4" | "j = 5" | "j = 6"
      | "j = 7" | "j = 8" | "j = 9" | "j = 10" | "j = 11" | "j = 12" | "j = 13"
      | "j = 14" | "j = 15"
      by atomize_elim arith
    then show "class_list hA2 j (?nodes j)"
      using c by cases simp_all
  qed
  have b1: "block_size hA2 65824 = 32"
    by (simp add: block_size_def HDRP_def SIZE_BITS_def hA2_def consts16)
  have b2: "block_size hA2 66352 = 3568"
    by (simp add: block_size_def HDRP_def SIZE_BITS_def hA2_def consts16)
  have up: "[0..<NUM] = [0, 1, 2, 3, 4, 5, 6, 7, 8, 9, 10, 11, 12, 13, 14, 15]"
    by (simp add: NUM_def upt_rec)
  have fe: "find_explicit 48 = 0" by (simp add: find_explicit_def)
  have "find_fit hA2 48 = Inr 66352"
    using find_fit_first_fit[OF h, THEN conjunct1]
    by (simp add: fe up first_fit_def b1 b2)
  then show ?thesis using c b1 b2 fe by simp
qed

subsection \<open>Requests of size zero, and the null pointer\<close>

text \<open>
  C8.  \<open>mm_malloc\<close> with size 0 returns \<open>NULL\<close> and the state it was given.  For every
  pointer other than \<open>NULL\<close>, \<open>mm_realloc\<close> with size 0 does exactly what \<open>mm_free\<close> does
  (the same new state, or the same error) and returns \<open>NULL\<close>.
\<close>

theorem zero_size_requests:
  "mm_malloc s 0 = Inr (NULL, s) \<and>
   (p \<noteq> NULL \<longrightarrow> mm_realloc s p 0 = then_do (mm_free s p) (\<lambda>s'. Inr (NULL, s')))"
  by (simp add: mm_malloc_def mm_realloc_zero)

theorem zero_size_requests_witness:
  "(65824 :: addr) \<noteq> NULL \<and> mm_free hA1 65824 = Inr hA1f \<and>
   mm_realloc hA1 65824 0 = Inr (NULL, hA1f) \<and> mm_malloc hA1 0 = Inr (NULL, hA1)"
proof -
  have h: "(65824 :: addr) \<noteq> NULL" by (simp add: NULL_def)
  from zero_size_requests[of hA1 65824] h step_free_a show ?thesis by simp
qed

text \<open>
  C2 fails on the code.  \<open>mm_realloc\<close> reads the size field of the header of \<open>ptr\<close>
  before it tests \<open>ptr\<close> against \<open>NULL\<close>.  For \<open>ptr = NULL\<close> that is a read one word below
  address 0, which no heap contains: on the freshly initialised heap
  \<open>mm_realloc NULL 16\<close> is a bad access, where \<open>mm_malloc 16\<close> returns a block.
\<close>

theorem realloc_null_reads_header:
  "mm_init fresh_memory = Inr (0, hA0) \<and>
   mm_realloc hA0 NULL 16 = Inl BadAccess \<and> mm_malloc hA0 16 = Inr (65824, hA1)"
  using mm_realloc_NULL[of hA0 16] step_init step_malloc_a by simp

subsection \<open>Growing a block\<close>

text \<open>
  C1 fails on the code.  In the state \<open>hA1\<close> the block at 65824 has 32 bytes and the
  physically next block is free and has 4064 bytes; a request for 24 bytes needs 48.
  The block could grow in place.  \<open>mm_realloc\<close> instead reads the first payload word of
  the next block, not its header, and compares with \<open>\<le>\<close> where it needs \<open>\<ge>\<close>: it allocates
  the new block 65856, copies, frees the old block and returns 65856.
\<close>

theorem realloc_in_place_missed:
  "mm_init fresh_memory = Inr (0, hA0) \<and> mm_malloc hA0 16 = Inr (65824, hA1) \<and>
   spec_can_grow hA1 65824 24 \<and> block_size hA1 65824 = 32 \<and>
   block_size hA1 (65824 + 32) = 4064 \<and> realloc_asize 24 = 48 \<and>
   mm_realloc hA1 65824 24 = Inr (65856, hA2) \<and> (65856 :: addr) \<noteq> 65824 \<and>
   ALLOC_BIT (mem hA2 (HDRP 65824)) = 0"
proof -
  have "spec_can_grow hA1 65824 24"
    by (simp add: spec_can_grow_def block_size_def valid_def HDRP_def SIZE_BITS_def
        ALLOC_BIT_def realloc_asize_def hA1_def consts16)
  moreover have "block_size hA1 65824 = 32" "block_size hA1 (65824 + 32) = 4064"
    by (simp_all add: block_size_def HDRP_def SIZE_BITS_def hA1_def consts16)
  moreover have "realloc_asize 24 = 48" by (simp add: realloc_asize_def consts16)
  moreover have "ALLOC_BIT (mem hA2 (HDRP 65824)) = 0"
    by (simp add: ALLOC_BIT_def HDRP_def hA2_def consts16)
  ultimately show ?thesis using step_init step_malloc_a step_realloc_a by simp
qed

subsection \<open>The allocate-copy-free path\<close>

text \<open>
  C9.  On the allocate-copy-free path \<open>mm_realloc\<close> returns \<open>NULL\<close> exactly when its call
  of \<open>mm_malloc\<close> returns \<open>NULL\<close>; and whenever it returns \<open>NULL\<close> the state is the one it
  was given, so the old block, its contents and its tags are as they were.
\<close>

theorem realloc_copy_failure:
  assumes "copy_path s p n"
  shows "((\<exists>s1. mm_realloc s p n = Inr (NULL, s1)) \<longleftrightarrow>
          (\<exists>s1. mm_malloc s (copy_request s p n) = Inr (NULL, s1))) \<and>
         (mm_realloc s p n = Inr (NULL, s') \<longrightarrow> s' = s)"
proof -
  note path = mm_realloc_copy_path[OF assms]
  have fwd: "mm_realloc s p n = Inr (NULL, s)"
    if "mm_malloc s (copy_request s p n) = Inr (NULL, s1)" for s1
  proof -
    have "s1 = s" using that by (rule mm_malloc_NULL)
    then show ?thesis using that by (simp add: path)
  qed
  have bwd: "mm_malloc s (copy_request s p n) = Inr (NULL, s) \<and> s1 = s"
    if r: "mm_realloc s p n = Inr (NULL, s1)" for s1
  proof -
    from r path obtain newptr s2 where
      m: "mm_malloc s (copy_request s p n) = Inr (newptr, s2)"
      and rest: "(if newptr = NULL then Inr (NULL, s2)
                  else then_do (memcpy s2 newptr p (block_size s p)) (\<lambda>s3.
                       then_do (mm_free s3 p) (\<lambda>s4. Inr (newptr, s4)))) = Inr (NULL, s1)"
      by (auto simp: then_do_Inr)
    have n: "newptr = NULL"
    proof (rule ccontr)
      assume "newptr \<noteq> NULL"
      then show False using rest by (auto simp: then_do_Inr)
    qed
    then have "s1 = s2" using rest by simp
    moreover have "s2 = s" using m n mm_malloc_NULL by simp
    ultimately show ?thesis using m n by simp
  qed
  show ?thesis using fwd bwd by blast
qed

theorem realloc_copy_failure_witness:
  "copy_path hA1 65824 5000 \<and> mm_realloc hA1 65824 5000 = Inr (NULL, hA1) \<and>
   mm_malloc hA1 (copy_request hA1 65824 5000) = Inr (NULL, hA1)"
proof -
  have h: "copy_path hA1 65824 5000"
    by (simp add: copy_path_def hA1_def model_defs)
  have c: "copy_request hA1 65824 5000 = 50240"
    by (simp add: copy_request_def block_size_def hA1_def model_defs)
  have m: "mm_malloc hA1 (copy_request hA1 65824 5000) = Inr (NULL, hA1)"
    using step_malloc_50240 by (simp add: c NULL_def)
  from realloc_copy_failure[OF h, of hA1] m have "\<exists>s1. mm_realloc hA1 65824 5000 = Inr (NULL, s1)"
    by blast
  then obtain s1 where r: "mm_realloc hA1 65824 5000 = Inr (NULL, s1)" ..
  from realloc_copy_failure[OF h, of s1] r have "s1 = hA1" by blast
  then show ?thesis using h r m by simp
qed

text \<open>
  C5, as stated, fails.  In the state \<open>hA1\<close> the old block at 65824 has a payload of 16
  bytes and 24 bytes are requested, so the specification has 16 bytes copied.  The code
  passes the size of the whole old block, 32, to \<open>memcpy\<close>: the word at offset 16 of the
  new payload, which \<open>mm_malloc\<close> had left 0, holds the footer of the old block afterwards.
\<close>

theorem realloc_copy_length_counterexample:
  "mm_init fresh_memory = Inr (0, hA0) \<and> mm_malloc hA0 16 = Inr (65824, hA1) \<and>
   copy_path hA1 65824 24 \<and> spec_copy_bytes hA1 65824 24 = 16 \<and>
   mm_malloc hA1 (copy_request hA1 65824 24) = Inr (65856, hA1m) \<and>
   mem hA1m (65856 + 16) = 0 \<and>
   mm_realloc hA1 65824 24 = Inr (65856, hA2) \<and>
   mem hA2 (65856 + 16) = PACK 32 1"
proof -
  have "copy_path hA1 65824 24"
    by (simp add: copy_path_def hA1_def model_defs)
  moreover have "spec_copy_bytes hA1 65824 24 = 16"
    by (simp add: spec_copy_bytes_def block_size_def hA1_def model_defs)
  moreover have "copy_request hA1 65824 24 = 480"
    by (simp add: copy_request_def block_size_def hA1_def model_defs)
  moreover have "mem hA1m (65856 + 16) = 0" by (simp add: hA1m_def)
  moreover have "mem hA2 (65856 + 16) = PACK 32 1" by (simp add: hA2_def PACK_def)
  ultimately show ?thesis
    using step_init step_malloc_a step_malloc_480 step_realloc_a by simp
qed

text \<open>
  C5, amended.  On the allocate-copy-free path, when \<open>mm_realloc\<close> returns a pointer
  other than \<open>NULL\<close>, that pointer is the one its call of \<open>mm_malloc\<close> returned; exactly as
  many bytes as the whole old block had (its payload and one doubleword more) were copied
  from the old payload pointer to the new one, every word outside that range of the new
  block staying as \<open>mm_malloc\<close> left it; and the old block was then released.
\<close>

theorem realloc_copy_success:
  assumes "copy_path s p n" and "mm_realloc s p n = Inr (r, s')" and "r \<noteq> NULL"
  shows "\<exists>s1 s2.
           mm_malloc s (copy_request s p n) = Inr (r, s1) \<and>
           memcpy s1 r p (block_size s p) = Inr s2 \<and>
           mm_free s2 p = Inr s' \<and>
           unat (block_size s p) = 8 * unat (block_size s p div WSIZE) \<and>
           (\<forall>i < unat (block_size s p div WSIZE).
              mem s2 (r + WSIZE * of_nat i) = mem s1 (p + WSIZE * of_nat i)) \<and>
           (\<forall>q. unat q < unat r \<or> unat r + unat (block_size s p) \<le> unat q \<longrightarrow>
              mem s2 q = mem s1 q)"
proof -
  let ?n = "block_size s p"
  let ?k = "unat (?n div WSIZE)"
  from assms(2) mm_realloc_copy_path[OF assms(1)]
  obtain newptr s1 where m: "mm_malloc s (copy_request s p n) = Inr (newptr, s1)"
    and rest: "(if newptr = NULL then Inr (NULL, s1)
                else then_do (memcpy s1 newptr p ?n) (\<lambda>s2.
                     then_do (mm_free s2 p) (\<lambda>s3. Inr (newptr, s3)))) = Inr (r, s')"
    by (auto simp: then_do_Inr)
  have nn: "newptr \<noteq> NULL" using rest assms(3) by (auto split: if_splits)
  from rest nn obtain s2 where c: "memcpy s1 newptr p ?n = Inr s2"
    and f: "mm_free s2 p = Inr s'" and r: "r = newptr"
    by (auto simp: then_do_Inr)
  from c have sep: "unat r + unat ?n \<le> unat p \<or> unat p + unat ?n \<le> unat r"
    and cw: "copy_words s1 r p ?k = Inr s2"
    by (auto simp: memcpy_def r split: if_splits)
  have k8: "unat ?n = 8 * ?k"
    by (rule block_size_words)
  have sep8: "unat r + 8 * ?k \<le> unat p \<or> unat p + 8 * ?k \<le> unat r"
    using sep k8 by auto
  have content: "\<forall>i < ?k. mem s2 (r + WSIZE * of_nat i) = mem s1 (p + WSIZE * of_nat i)"
    using copy_words_content[OF cw sep8] by simp
  have frame: "\<forall>q. unat q < unat r \<or> unat r + unat ?n \<le> unat q \<longrightarrow> mem s2 q = mem s1 q"
  proof (intro allI impI)
    fix q :: addr
    assume "unat q < unat r \<or> unat r + unat ?n \<le> unat q"
    then show "mem s2 q = mem s1 q"
    proof
      assume "unat q < unat r"
      then show ?thesis using copy_words_below[OF cw] by simp
    next
      assume "unat r + unat ?n \<le> unat q"
      then have "unat r + 8 * ?k \<le> unat q" using k8 by simp
      then show ?thesis using copy_words_above[OF cw] by simp
    qed
  qed
  show ?thesis using m c f k8 content frame by (auto simp: r)
qed

theorem realloc_copy_success_witness:
  "copy_path hA1 65824 24 \<and> mm_realloc hA1 65824 24 = Inr (65856, hA2) \<and>
   (65856 :: addr) \<noteq> NULL \<and> block_size hA1 65824 = 32 \<and>
   mm_malloc hA1 (copy_request hA1 65824 24) = Inr (65856, hA1m) \<and>
   (\<exists>s2. memcpy hA1m 65856 65824 32 = Inr s2 \<and> mm_free s2 65824 = Inr hA2 \<and>
      mem s2 65856 = mem hA1m 65824 \<and> mem s2 (65856 + 24) = mem hA1m (65824 + 24) \<and>
      mem s2 (65856 - 8) = mem hA1m (65856 - 8) \<and>
      mem s2 (65856 + 32) = mem hA1m (65856 + 32))"
proof -
  have h: "copy_path hA1 65824 24"
    by (simp add: copy_path_def hA1_def model_defs)
  have n: "(65856 :: addr) \<noteq> NULL" by (simp add: NULL_def)
  have b: "block_size hA1 65824 = 32"
    by (simp add: block_size_def HDRP_def SIZE_BITS_def hA1_def consts16)
  have c: "copy_request hA1 65824 24 = 480"
    by (simp add: copy_request_def block_size_def hA1_def model_defs)
  from realloc_copy_success[OF h step_realloc_a n] obtain s1 s2 where
    m: "mm_malloc hA1 (copy_request hA1 65824 24) = Inr (65856, s1)"
    and cp: "memcpy s1 65856 65824 (block_size hA1 65824) = Inr s2"
    and fr: "mm_free s2 65824 = Inr hA2"
    and content: "\<forall>i < unat (block_size hA1 65824 div WSIZE).
      mem s2 (65856 + WSIZE * of_nat i) = mem s1 (65824 + WSIZE * of_nat i)"
    and frame: "\<forall>q. unat q < unat (65856 :: addr) \<or>
      unat (65856 :: addr) + unat (block_size hA1 65824) \<le> unat q \<longrightarrow> mem s2 q = mem s1 q"
    by blast
  have s1: "s1 = hA1m" using m step_malloc_480 by (simp add: c)
  have c0: "mem s2 65856 = mem hA1m 65824"
    using content[rule_format, of 0] by (simp add: b s1 consts16)
  have c3: "mem s2 (65856 + 24) = mem hA1m (65824 + 24)"
    using content[rule_format, of 3] by (simp add: b s1 consts16)
  have f1: "mem s2 (65856 - 8) = mem hA1m (65856 - 8)"
    using frame[rule_format, of "65856 - 8"] by (simp add: b s1)
  have f2: "mem s2 (65856 + 32) = mem hA1m (65856 + 32)"
    using frame[rule_format, of "65856 + 32"] by (simp add: b s1)
  show ?thesis
    using h step_realloc_a n b m cp fr c0 c3 f1 f2 by (auto simp: s1 b)
qed

subsection \<open>Coalescing\<close>

text \<open>
  C4 fails on the code.  On \<open>large_memory\<close>, after \<open>mm_init\<close>, five allocations and the
  release of the second block, the block at 65824 (32 bytes) is followed by a free block
  whose first payload word is the address 65536 of its list head.  \<open>mm_realloc 65824 70000\<close>
  takes that word for the size of the next block and, 32 + 65536 being at most the adjusted
  size, grows the block "in place" to 65568 bytes, over the free block and the block at
  65888, which is in use.  It returns without error.  Three releases later the heap holds
  a free block at 65824 whose physically next block, at 131392, is free as well.
\<close>

theorem coalescing_broken_by_realloc:
  "mm_init large_memory = Inr (0, hB0) \<and>
   mm_malloc hB0 16 = Inr (65824, hB1) \<and>
   mm_malloc hB1 16 = Inr (65856, hB2) \<and>
   mm_malloc hB2 65488 = Inr (65888, hB3) \<and>
   mm_malloc hB3 16 = Inr (131392, hB4) \<and>
   mm_malloc hB4 16 = Inr (131424, hB5) \<and>
   mm_free hB5 65856 = Inr hB6 \<and>
   mm_realloc hB6 65824 70000 = Inr (65824, hB7) \<and>
   mm_free hB7 65824 = Inr hB8 \<and>
   mm_free hB8 65888 = Inr hB9 \<and>
   mm_free hB9 131392 = Inr hB10 \<and>
   adjacent_free hB6 = Some (Inr False) \<and>
   adjacent_free hB10 = Some (Inr True) \<and>
   block_size hB10 65824 = 65568 \<and> ALLOC_BIT (mem hB10 (HDRP 65824)) = 0 \<and>
   ALLOC_BIT (mem hB10 (HDRP (65824 + 65568))) = 0"
proof -
  have a6: "adjacent_free hB6 = Some (Inr False)"
    by (simp add: adjacent_free_def adjacent_free_from.simps hB6_def model_defs)
  have a10: "adjacent_free hB10 = Some (Inr True)"
    by (simp add: adjacent_free_def adjacent_free_from.simps hB10_def model_defs)
  have t: "block_size hB10 65824 = 65568" "ALLOC_BIT (mem hB10 (HDRP 65824)) = 0"
    "ALLOC_BIT (mem hB10 (HDRP (65824 + 65568))) = 0"
    by (simp_all add: block_size_def HDRP_def SIZE_BITS_def ALLOC_BIT_def hB10_def consts16)
  show ?thesis
    using big_step_init big_step_1 big_step_2 big_step_3 big_step_4 big_step_5 big_step_6
      big_step_7 big_step_8 big_step_9 big_step_10 a6 a10 t
    by simp
qed

end
